theory Spec2Isabelle
  imports Complex_Main "HOL-Library.Sublist"
begin

section \<open>JavaScript strings and values\<close>

text \<open>
  A JavaScript string is a sequence of UTF-16 code units. It is modelled by an Isabelle
  string with one \<open>char\<close> for each code unit, so the model covers the strings whose code
  units lie in U+0000..U+00FF; \<open>length\<close> is JavaScript's \<open>.length\<close> on them.
\<close>

text \<open>The regular-expression class \<^verbatim>\<open>\d\<close> (without the unicode flag): the ten ASCII digits.\<close>

definition is_digit :: "char \<Rightarrow> bool" where
  "is_digit c = (c \<in> set ''0123456789'')"

text \<open>The class \<^verbatim>\<open>[a-zA-Z]\<close>.\<close>

definition is_letter :: "char \<Rightarrow> bool" where
  "is_letter c = (c \<in> set ''abcdefghijklmnopqrstuvwxyzABCDEFGHIJKLMNOPQRSTUVWXYZ'')"

text \<open>
  The class \<^verbatim>\<open>\s\<close>, which is also the set of code units that \<^verbatim>\<open>String.prototype.trim\<close>
  strips: tab, line feed, vertical tab, form feed, carriage return, space and, the only
  other one below U+0100, the no-break space U+00A0.
\<close>

definition js_space :: "char \<Rightarrow> bool" where
  "js_space c = (c \<in> {CHR 0x09, CHR 0x0A, CHR 0x0B, CHR 0x0C, CHR 0x0D, CHR 0x20, CHR 0xA0})"

text \<open>\<^verbatim>\<open>s.trim()\<close>\<close>

definition js_trim :: "string \<Rightarrow> string" where
  "js_trim s = rev (dropWhile js_space (rev (dropWhile js_space s)))"

text \<open>\<^verbatim>\<open>s.includes(p)\<close>: \<open>p\<close> occurs in \<open>s\<close> as a contiguous run, case-sensitively.\<close>

definition js_includes :: "string \<Rightarrow> string \<Rightarrow> bool" where
  "js_includes s p = sublist p s"

text \<open>\<^verbatim>\<open>xs.join(sep)\<close> on an array of strings.\<close>

fun join :: "string \<Rightarrow> string list \<Rightarrow> string" where
  "join sep [] = []"
| "join sep [x] = x"
| "join sep (x # y # ys) = x @ sep @ join sep (y # ys)"

text \<open>\<^verbatim>\<open>/^\d+$/.test(s)\<close>: without the multiline flag \<^verbatim>\<open>$\<close> is the end of the input.\<close>

definition digits_only :: "string \<Rightarrow> bool" where
  "digits_only s = (s \<noteq> [] \<and> list_all is_digit s)"

text \<open>
  \<^verbatim>\<open>parseInt(s, 10)\<close> on a string of decimal digits, the only strings the handler parses
  (each call follows the \<^verbatim>\<open>/^\d+$/\<close> test): the decimal value. JavaScript rounds the
  value to a double; rounding is monotone and keeps every integer up to \<open>2^53\<close>, so the
  comparisons with 1, 100 and 10000 below and every accepted value are those of the
  exact number.
\<close>

definition digit_val :: "char \<Rightarrow> int" where
  "digit_val c = of_char c - 48"

definition parseInt10 :: "string \<Rightarrow> int" where
  "parseInt10 s = foldl (\<lambda>n c. 10 * n + digit_val c) 0 s"

text \<open>
  A value of \<^verbatim>\<open>req.query\<close> as the query-string parser builds it: a string, an array
  (a repeated key, or \<^verbatim>\<open>key[]=\<close>), or a nested object (\<^verbatim>\<open>key[sub]=\<close>).
\<close>

datatype qvalue = QStr string | QArr "qvalue list" | QObj "(string \<times> qvalue) list"

text \<open>
  A thrown JavaScript error, with the properties the code reads: \<^verbatim>\<open>name\<close>,
  \<^verbatim>\<open>message\<close>, \<^verbatim>\<open>code\<close> (absent on most errors) and, on a validation error, \<^verbatim>\<open>errors\<close>:
  the violated paths with the message of each, in the order of \<^verbatim>\<open>Object.values\<close>.
\<close>

record js_error =
  err_name :: string
  err_message :: string
  err_code :: "nat option"
  err_errors :: "(string \<times> string) list"

text \<open>\<^verbatim>\<open>new Error(message)\<close>\<close>

definition new_Error :: "string \<Rightarrow> js_error" where
  "new_Error m = \<lparr>err_name = ''Error'', err_message = m, err_code = None, err_errors = []\<rparr>"

text \<open>
  The error of a coercion that finds no primitive value, with the message the engine
  of Node.js gives it.
\<close>

definition TypeError_primitive :: js_error where
  "TypeError_primitive =
     \<lparr>err_name = ''TypeError'', err_message = ''Cannot convert object to primitive value'',
      err_code = None, err_errors = []\<rparr>"

text \<open>
  The coercion of a value to a string, where the code hands it to \<^verbatim>\<open>RegExp.test\<close> or
  \<^verbatim>\<open>parseInt\<close>; \<open>None\<close> when the coercion throws a \<^verbatim>\<open>TypeError\<close>. A string is itself. An
  array joins the strings of its elements with commas, and throws when one of them
  does. An object is asked for its \<^verbatim>\<open>toString\<close> and then its \<^verbatim>\<open>valueOf\<close>: with an own key
  \<^verbatim>\<open>toString\<close>, whose value the parser built and is no function, the first is skipped
  and the second, own or inherited, gives no primitive value, so the coercion throws;
  without that key the inherited \<^verbatim>\<open>toString\<close> answers \<^verbatim>\<open>[object Object]\<close>.
\<close>

fun js_toString :: "qvalue \<Rightarrow> string option" where
  "js_toString (QStr s) = Some s"
| "js_toString (QArr vs) = map_option (join '','') (those (map js_toString vs))"
| "js_toString (QObj kvs) =
     (if ''toString'' \<in> fst ` set kvs then None else Some ''[object Object]'')"

text \<open>
  \<^verbatim>\<open>req.query\<close>: the parsed query string, an object, as the list of its own keys with
  their values in the object's key order.
\<close>

type_synonym query = "(string \<times> qvalue) list"

section \<open>Query parameter validation of the list route\<close>

text \<open>
  Each check of \<^verbatim>\<open>router.get('/')\<close> that answers
  \<^verbatim>\<open>res.status(400).json({success: false, message})\<close> and returns is a result
  \<open>Inl\<close> here; \<open>Inr\<close> carries the validated value on. The checks of \<^verbatim>\<open>page\<close> and
  \<^verbatim>\<open>perPage\<close> coerce the value to a string and so can also leave the \<^verbatim>\<open>try\<close> block by an
  exception, which the \<^verbatim>\<open>catch\<close> of the handler answers.
\<close>

datatype abort = BadRequest string | Thrown js_error

definition allowedParams :: "string list" where
  "allowedParams = [''page'', ''perPage'', ''borough'']"

text \<open>
  \<^verbatim>\<open>const { page, perPage, borough, ...extraParams } = req.query\<close> and
  \<^verbatim>\<open>Object.keys(extraParams)\<close>: the keys other than the three named ones.
\<close>

definition extraParamKeys :: "query \<Rightarrow> string list" where
  "extraParamKeys q = filter (\<lambda>k. k \<notin> {''page'', ''perPage'', ''borough''}) (map fst q)"

definition extra_message :: "string list \<Rightarrow> string" where
  "extra_message ks =
     ''Invalid query parameters: '' @ join '', '' ks @
     ''. Allowed parameters: '' @ join '', '' allowedParams"

definition validate_extra :: "query \<Rightarrow> string + unit" where
  "validate_extra q =
     (if length (extraParamKeys q) > 0 then Inl (extra_message (extraParamKeys q))
      else Inr ())"

definition validate_page :: "qvalue option \<Rightarrow> abort + int" where
  "validate_page page =
     (case page of
        None \<Rightarrow> Inr 1
      | Some v \<Rightarrow>
          (case js_toString v of
             None \<Rightarrow> Inl (Thrown TypeError_primitive)
           | Some str \<Rightarrow>
               if \<not> digits_only str
               then Inl (BadRequest ''Page parameter must be a positive integer'')
               else let pageNum = parseInt10 str in
                 if pageNum < 1 then Inl (BadRequest ''Page parameter must be greater than 0'')
                 else if pageNum > 10000
                   then Inl (BadRequest ''Page parameter cannot exceed 10000'')
                 else Inr pageNum))"

definition validate_perPage :: "qvalue option \<Rightarrow> abort + int" where
  "validate_perPage perPage =
     (case perPage of
        None \<Rightarrow> Inr 10
      | Some v \<Rightarrow>
          (case js_toString v of
             None \<Rightarrow> Inl (Thrown TypeError_primitive)
           | Some str \<Rightarrow>
               if \<not> digits_only str
               then Inl (BadRequest ''perPage parameter must be a positive integer'')
               else let perPageNum = parseInt10 str in
                 if perPageNum < 1
                   then Inl (BadRequest ''perPage parameter must be greater than 0'')
                 else if perPageNum > 100
                   then Inl (BadRequest ''perPage parameter cannot exceed 100 items'')
                 else Inr perPageNum))"

text \<open>The class \<^verbatim>\<open>[a-zA-Z\s\-']\<close> and the test \<^verbatim>\<open>/^[a-zA-Z\s\-']+$/\<close>.\<close>

definition borough_char :: "char \<Rightarrow> bool" where
  "borough_char c = (is_letter c \<or> js_space c \<or> c = CHR ''-'' \<or> c = CHR 0x27)"

definition borough_chars_only :: "string \<Rightarrow> bool" where
  "borough_chars_only s = (s \<noteq> [] \<and> list_all borough_char s)"

text \<open>The validated filter is \<open>None\<close> for JavaScript's \<^verbatim>\<open>null\<close>: no filter.\<close>

definition validate_borough :: "qvalue option \<Rightarrow> string + string option" where
  "validate_borough borough =
     (case borough of
        None \<Rightarrow> Inr None
      | Some (QStr b) \<Rightarrow>
          let trimmedBorough = js_trim b in
            if length trimmedBorough = 0 then Inl ''Borough parameter cannot be empty''
            else if length trimmedBorough > 50
              then Inl ''Borough parameter cannot exceed 50 characters''
            else if \<not> borough_chars_only trimmedBorough
              then Inl ''Borough parameter can only contain letters, spaces, hyphens, and apostrophes''
            else Inr (Some trimmedBorough)
      | Some _ \<Rightarrow> Inl ''Borough parameter must be a string'')"

text \<open>
  The four checks in the order of the handler; the first that does not pass ends the
  validation. The check of the borough tests the type of the value before it reads
  it as a string and throws nothing.
\<close>

definition validate_list_query :: "query \<Rightarrow> abort + (int \<times> int \<times> string option)" where
  "validate_list_query q =
     (case validate_extra q of
        Inl m \<Rightarrow> Inl (BadRequest m)
      | Inr _ \<Rightarrow>
     (case validate_page (map_of q ''page'') of
        Inl a \<Rightarrow> Inl a
      | Inr pageNum \<Rightarrow>
     (case validate_perPage (map_of q ''perPage'') of
        Inl a \<Rightarrow> Inl a
      | Inr perPageNum \<Rightarrow>
     (case validate_borough (map_of q ''borough'') of
        Inl m \<Rightarrow> Inl (BadRequest m)
      | Inr boroughFilter \<Rightarrow> Inr (pageNum, perPageNum, boroughFilter)))))"

section \<open>Regular expressions of the schema\<close>

text \<open>
  The \<^verbatim>\<open>match\<close> validators of the schema test a value against a regular expression.
  The expressions are built from character classes, sequence, alternative and
  repetition; \<open>rmatch\<close> decides whether a whole string belongs to one by following the
  set of its partial derivatives through the string.
\<close>

datatype cclass =
    CDigit
  | CWord
  | CSpace
  | CDot
  | CAny
  | COneOf string

text \<open>
  \<^verbatim>\<open>\d\<close>, \<^verbatim>\<open>\w\<close> (letters, digits, underscore), \<^verbatim>\<open>\s\<close>, the dot (every code unit that
  is no line terminator: line feed and carriage return are the two below U+0100),
  any code unit, and the listed characters.
\<close>

fun in_class :: "cclass \<Rightarrow> char \<Rightarrow> bool" where
  "in_class CDigit c = is_digit c"
| "in_class CWord c = (is_letter c \<or> is_digit c \<or> c = CHR ''_'')"
| "in_class CSpace c = js_space c"
| "in_class CDot c = (c \<noteq> CHR 0x0A \<and> c \<noteq> CHR 0x0D)"
| "in_class CAny c = True"
| "in_class (COneOf cs) c = (c \<in> set cs)"

datatype rexp =
    RNone
  | REps
  | RChar cclass
  | RAlt rexp rexp
  | RSeq rexp rexp
  | RStar rexp

fun nullable :: "rexp \<Rightarrow> bool" where
  "nullable RNone = False"
| "nullable REps = True"
| "nullable (RChar k) = False"
| "nullable (RAlt r s) = (nullable r \<or> nullable s)"
| "nullable (RSeq r s) = (nullable r \<and> nullable s)"
| "nullable (RStar r) = True"

fun rseq :: "rexp \<Rightarrow> rexp \<Rightarrow> rexp" where
  "rseq REps s = s"
| "rseq r s = RSeq r s"

fun pderiv :: "char \<Rightarrow> rexp \<Rightarrow> rexp list" where
  "pderiv c RNone = []"
| "pderiv c REps = []"
| "pderiv c (RChar k) = (if in_class k c then [REps] else [])"
| "pderiv c (RAlt r s) = pderiv c r @ pderiv c s"
| "pderiv c (RSeq r s) =
     map (\<lambda>r'. rseq r' s) (pderiv c r) @ (if nullable r then pderiv c s else [])"
| "pderiv c (RStar r) = map (\<lambda>r'. rseq r' (RStar r)) (pderiv c r)"

fun rmatches :: "rexp list \<Rightarrow> string \<Rightarrow> bool" where
  "rmatches rs [] = list_ex nullable rs"
| "rmatches rs (c # cs) = rmatches (remdups (concat (map (pderiv c) rs))) cs"

definition rmatch :: "rexp \<Rightarrow> string \<Rightarrow> bool" where
  "rmatch r s = rmatches [r] s"

text \<open>
  The strings an expression stands for, to state what the matcher decides: the
  language of a repetition is the closure of the language of its body under
  concatenation.
\<close>

inductive_set star :: "string set \<Rightarrow> string set" for A :: "string set" where
  star_Nil: "[] \<in> star A"
| star_app: "u \<in> A \<Longrightarrow> v \<in> star A \<Longrightarrow> u @ v \<in> star A"

fun lang :: "rexp \<Rightarrow> string set" where
  "lang RNone = {}"
| "lang REps = {[]}"
| "lang (RChar k) = {[c] | c. in_class k c}"
| "lang (RAlt r s) = lang r \<union> lang s"
| "lang (RSeq r s) = {u @ v | u v. u \<in> lang r \<and> v \<in> lang s}"
| "lang (RStar r) = star (lang r)"

definition rlit :: "char \<Rightarrow> rexp" where
  "rlit c = RChar (COneOf [c])"

definition rstr :: "string \<Rightarrow> rexp" where
  "rstr s = foldr (\<lambda>c r. RSeq (rlit c) r) s REps"

definition ropt :: "rexp \<Rightarrow> rexp" where
  "ropt r = RAlt REps r"

definition rplus :: "rexp \<Rightarrow> rexp" where
  "rplus r = RSeq r (RStar r)"

fun rtimes :: "nat \<Rightarrow> rexp \<Rightarrow> rexp" where
  "rtimes 0 r = REps"
| "rtimes (Suc n) r = RSeq r (rtimes n r)"

text \<open>\<^verbatim>\<open>/^\(\d{3}\)\s\d{3}-\d{4}$/\<close>\<close>

definition phone_rexp :: rexp where
  "phone_rexp =
     RSeq (rlit CHR ''('') (RSeq (rtimes 3 (RChar CDigit)) (RSeq (rlit CHR '')'')
       (RSeq (RChar CSpace) (RSeq (rtimes 3 (RChar CDigit)) (RSeq (rlit CHR ''-'')
         (rtimes 4 (RChar CDigit)))))))"

text \<open>\<^verbatim>\<open>/^\w+([.-]?\w+)*@\w+([.-]?\w+)*(\.\w{2,3})+$/\<close>\<close>

definition email_rexp :: rexp where
  "email_rexp =
     (let w = RChar CWord;
          words = RSeq (rplus w) (RStar (RSeq (ropt (RChar (COneOf ''.-''))) (rplus w)))
      in RSeq words (RSeq (rlit CHR ''@'') (RSeq words
           (rplus (RSeq (rlit CHR ''.'') (RSeq (rtimes 2 w) (ropt w)))))))"

text \<open>
  \<^verbatim>\<open>/^https?:\/\/.+/\<close> is anchored at the start only: a value passes when a prefix of
  it matches, that is when the value is a match followed by anything.
\<close>

definition website_rexp :: rexp where
  "website_rexp =
     RSeq (rstr ''http'') (RSeq (ropt (rlit CHR ''s'')) (RSeq (rstr ''://'')
       (RSeq (rplus (RChar CDot)) (RStar (RChar CAny)))))"

section \<open>The restaurant schema\<close>

text \<open>
  A document of the schema, as the keys a caller supplies or the collection stores: a
  key that is absent is \<open>None\<close>. The nested paths \<^verbatim>\<open>address\<close> and \<^verbatim>\<open>hours\<close> are records
  of their own. The timestamps the storage layer maintains are left out: nothing below
  reads them.
\<close>

record address_fields =
  street :: "string option"
  city :: "string option"
  state :: "string option"
  zipCode :: "string option"
  addr_borough :: "string option"

record hours_fields =
  monday :: "string option"
  tuesday :: "string option"
  wednesday :: "string option"
  thursday :: "string option"
  friday :: "string option"
  saturday :: "string option"
  sunday :: "string option"

record restaurant_fields =
  name :: "string option"
  address :: "address_fields option"
  borough :: "string option"
  cuisine :: "string option"
  phone :: "string option"
  email :: "string option"
  website :: "string option"
  rating :: "rat option"
  priceRange :: "string option"
  hours :: "hours_fields option"
  isActive :: "bool option"

text \<open>
  A request body (\<^verbatim>\<open>req.body\<close>, a parsed JSON object): the keys of the schema, each of
  its schema type, and the names of the other keys it has, which the schema ignores.
\<close>

record request_body =
  known :: restaurant_fields
  unknown_keys :: "string list"

text \<open>\<^verbatim>\<open>Object.keys(req.body).length\<close>\<close>

definition count_some :: "'a option \<Rightarrow> nat" where
  "count_some v = (case v of None \<Rightarrow> 0 | Some _ \<Rightarrow> 1)"

definition body_key_count :: "request_body \<Rightarrow> nat" where
  "body_key_count b =
     (let f = known b in
        count_some (name f) + count_some (address f) + count_some (borough f) +
        count_some (cuisine f) + count_some (phone f) + count_some (email f) +
        count_some (website f) + count_some (rating f) + count_some (priceRange f) +
        count_some (hours f) + count_some (isActive f) + length (unknown_keys b))"

text \<open>An identifier of the collection (a 12-byte ObjectId) as the number it encodes.\<close>

type_synonym objectid = int

record restaurant =
  oid :: objectid
  content :: restaurant_fields

section \<open>Errors, the collection and the storage driver\<close>

text \<open>The calls of the repository module \<^verbatim>\<open>db\<close>, recorded in the order they are made.\<close>

datatype db_call =
    AddNewRestaurant
  | GetAllRestaurants int int "string option"
  | GetRestaurantById string
  | UpdateRestaurantById string
  | DeleteRestaurantById string

text \<open>
  The state the handlers run against. \<open>docs\<close> is the collection. \<open>fault\<close> is the
  condition of the storage engine: \<open>None\<close> when it answers, \<open>Some e\<close> when every
  operation that reaches it fails with the error \<open>e\<close> (a lost connection, a server-side
  error). \<open>calls\<close> records the repository calls made so far; the code does not read it.
\<close>

record store =
  docs :: "restaurant list"
  fault :: "js_error option"
  calls :: "db_call list"

subsection \<open>Setters, defaults and validators of the schema\<close>

text \<open>
  \<^verbatim>\<open>toLowerCase\<close> on code units below U+0100: the ASCII capitals and the Latin-1
  capitals U+00C0..U+00DE (U+00D7, the multiplication sign, is none) move up by 32.
\<close>

definition js_lower_char :: "char \<Rightarrow> char" where
  "js_lower_char c =
     (let n = (of_char c :: nat) in
        if (65 \<le> n \<and> n \<le> 90) \<or> (192 \<le> n \<and> n \<le> 222 \<and> n \<noteq> 215) then char_of (n + 32)
        else c)"

definition js_toLowerCase :: "string \<Rightarrow> string" where
  "js_toLowerCase s = map js_lower_char s"

text \<open>The setters: \<^verbatim>\<open>trim: true\<close> on the string paths that declare it, \<^verbatim>\<open>lowercase: true\<close> on the email.\<close>

definition address_setters :: "address_fields \<Rightarrow> address_fields" where
  "address_setters a =
     \<lparr>street = map_option js_trim (street a), city = map_option js_trim (city a),
      state = map_option js_trim (state a), zipCode = map_option js_trim (zipCode a),
      addr_borough = map_option js_trim (addr_borough a)\<rparr>"

definition apply_setters :: "restaurant_fields \<Rightarrow> restaurant_fields" where
  "apply_setters f =
     \<lparr>name = map_option js_trim (name f),
      address = map_option address_setters (address f),
      borough = map_option js_trim (borough f),
      cuisine = map_option js_trim (cuisine f),
      phone = map_option js_trim (phone f),
      email = map_option (js_toLowerCase \<circ> js_trim) (email f),
      website = map_option js_trim (website f),
      rating = rating f,
      priceRange = priceRange f,
      hours = hours f,
      isActive = isActive f\<rparr>"

text \<open>The defaults a new document gets on the paths it leaves out.\<close>

definition default_to :: "'a \<Rightarrow> 'a option \<Rightarrow> 'a option" where
  "default_to d v = (case v of None \<Rightarrow> Some d | Some x \<Rightarrow> Some x)"

definition hours_defaults :: "hours_fields option \<Rightarrow> hours_fields" where
  "hours_defaults h =
     (let day = (\<lambda>sel. default_to ''Closed'' (case h of None \<Rightarrow> None | Some x \<Rightarrow> sel x)) in
        \<lparr>monday = day monday, tuesday = day tuesday, wednesday = day wednesday,
         thursday = day thursday, friday = day friday, saturday = day saturday,
         sunday = day sunday\<rparr>)"

definition apply_defaults :: "restaurant_fields \<Rightarrow> restaurant_fields" where
  "apply_defaults f =
     f\<lparr>rating := default_to 1 (rating f),
       priceRange := default_to ''$$'' (priceRange f),
       hours := Some (hours_defaults (hours f)),
       isActive := default_to True (isActive f)\<rparr>"

text \<open>
  The validators of one path run in order, \<^verbatim>\<open>required\<close> first, and the first that
  fails gives the path's message.
\<close>

fun first_failure :: "(bool \<times> string) list \<Rightarrow> string list" where
  "first_failure [] = []"
| "first_failure ((ok, m) # checks) = (if ok then first_failure checks else [m])"

text \<open>
  \<^verbatim>\<open>required\<close> on a string path fails on an absent or empty value. When a query
  update is validated (\<open>upd\<close>), only the paths the update names are checked, so an
  absent path passes; an update that names the nested path \<^verbatim>\<open>address\<close> names all the
  paths below it.
\<close>

definition required_ok :: "bool \<Rightarrow> string option \<Rightarrow> bool" where
  "required_ok upd v = (case v of None \<Rightarrow> upd | Some s \<Rightarrow> s \<noteq> [])"

definition maxLength_ok :: "nat \<Rightarrow> string option \<Rightarrow> bool" where
  "maxLength_ok n v = (case v of None \<Rightarrow> True | Some s \<Rightarrow> length s \<le> n)"

definition enum_ok :: "string list \<Rightarrow> string option \<Rightarrow> bool" where
  "enum_ok vals v = (case v of None \<Rightarrow> True | Some s \<Rightarrow> s \<in> set vals)"

text \<open>A \<^verbatim>\<open>match\<close> validator passes an absent or empty value and tests the others.\<close>

definition match_ok :: "rexp \<Rightarrow> string option \<Rightarrow> bool" where
  "match_ok r v = (case v of None \<Rightarrow> True | Some s \<Rightarrow> s = [] \<or> rmatch r s)"

definition min_ok :: "rat \<Rightarrow> rat option \<Rightarrow> bool" where
  "min_ok m v = (case v of None \<Rightarrow> True | Some x \<Rightarrow> m \<le> x)"

definition max_ok :: "rat \<Rightarrow> rat option \<Rightarrow> bool" where
  "max_ok m v = (case v of None \<Rightarrow> True | Some x \<Rightarrow> x \<le> m)"

text \<open>
  The text \<^verbatim>\<open>String.prototype.replace\<close> puts in for a replacement string when the
  pattern is a string: \<^verbatim>\<open>$$\<close> stands for a dollar sign, \<^verbatim>\<open>$&\<close> for the matched text,
  \<^verbatim>\<open>$`\<close> for the text before the match and \<^verbatim>\<open>$'\<close> for the text after it; every other
  character stands for itself.
\<close>

fun js_substitution :: "string \<Rightarrow> string \<Rightarrow> string \<Rightarrow> string \<Rightarrow> string" where
  "js_substitution matched pre post [] = []"
| "js_substitution matched pre post [c] = [c]"
| "js_substitution matched pre post (c # d # r) =
     (if c = CHR ''$'' \<and> d = CHR ''$'' then CHR ''$'' # js_substitution matched pre post r
      else if c = CHR ''$'' \<and> d = CHR ''&'' then matched @ js_substitution matched pre post r
      else if c = CHR ''$'' \<and> d = CHR 0x60 then pre @ js_substitution matched pre post r
      else if c = CHR ''$'' \<and> d = CHR 0x27 then post @ js_substitution matched pre post r
      else c # js_substitution matched pre post (d # r))"

text \<open>
  The message of an \<^verbatim>\<open>enum\<close> validator that declares none: the template
  \<^verbatim>\<open>`{VALUE}` is not a valid enum value for path `{PATH}`.\<close> with the path put in and
  then the value, by \<^verbatim>\<open>replace\<close>.
\<close>

definition enum_message :: "string \<Rightarrow> string option \<Rightarrow> string" where
  "enum_message path v =
     (let pre = [CHR 0x60];
          post = [CHR 0x60] @ '' is not a valid enum value for path '' @
                  [CHR 0x60] @ path @ [CHR 0x60] @ ''.''
      in pre @
         js_substitution ''{VALUE}'' pre post (case v of None \<Rightarrow> [] | Some s \<Rightarrow> s) @
         post)"

definition cuisines :: "string list" where
  "cuisines = [''Italian'', ''Chinese'', ''Mexican'', ''Indian'', ''American'', ''French'',
     ''Japanese'', ''Thai'', ''Mediterranean'', ''Other'']"

definition priceRanges :: "string list" where
  "priceRanges = [''$'', ''$$'', ''$$$'', ''$$$$'']"

definition address_path :: "(address_fields \<Rightarrow> string option) \<Rightarrow> restaurant_fields \<Rightarrow> string option" where
  "address_path sel f = (case address f of None \<Rightarrow> None | Some a \<Rightarrow> sel a)"

text \<open>
  The violated paths of a document with the message of each. One path contributes at
  most one message; every violated path contributes. The list is in the order of the
  schema; the order in which the object-document mapper reports the paths differs
  between its versions and is not reproduced, and the properties below read the list
  where it has one entry.
\<close>

definition path_errors :: "string \<Rightarrow> (bool \<times> string) list \<Rightarrow> (string \<times> string) list" where
  "path_errors path checks = map (\<lambda>m. (path, m)) (first_failure checks)"

definition validate_paths :: "bool \<Rightarrow> restaurant_fields \<Rightarrow> (string \<times> string) list" where
  "validate_paths upd f =
     path_errors ''name''
       [(required_ok upd (name f), ''Restaurant name is required''),
        (maxLength_ok 100 (name f), ''Restaurant name cannot exceed 100 characters'')] @
     path_errors ''address.street''
       [(required_ok (upd \<and> address f = None) (address_path street f), ''Street address is required'')] @
     path_errors ''address.city''
       [(required_ok (upd \<and> address f = None) (address_path city f), ''City is required'')] @
     path_errors ''address.state''
       [(required_ok (upd \<and> address f = None) (address_path state f), ''State is required'')] @
     path_errors ''address.zipCode''
       [(required_ok (upd \<and> address f = None) (address_path zipCode f), ''Zip code is required'')] @
     path_errors ''cuisine''
       [(required_ok upd (cuisine f), ''Cuisine type is required''),
        (enum_ok cuisines (cuisine f), enum_message ''cuisine'' (cuisine f))] @
     path_errors ''phone''
       [(required_ok upd (phone f), ''Phone number is required''),
        (match_ok phone_rexp (phone f), ''Phone number must be in format (XXX) XXX-XXXX'')] @
     path_errors ''email''
       [(required_ok upd (email f), ''Email is required''),
        (match_ok email_rexp (email f), ''Please enter a valid email'')] @
     path_errors ''website''
       [(match_ok website_rexp (website f),
         ''Website must be a valid URL starting with http:// or https://'')] @
     path_errors ''rating''
       [(min_ok 1 (rating f), ''Rating must be at least 1''),
        (max_ok 5 (rating f), ''Rating cannot exceed 5'')] @
     path_errors ''priceRange''
       [(enum_ok priceRanges (priceRange f), enum_message ''priceRange'' (priceRange f))]"

text \<open>The validation error the object-document mapper throws for a list of violations.\<close>

definition ValidationError :: "string \<Rightarrow> (string \<times> string) list \<Rightarrow> js_error" where
  "ValidationError intro errs =
     \<lparr>err_name = ''ValidationError'',
      err_message = intro @ join '', '' (map (\<lambda>(p, m). p @ '': '' @ m) errs),
      err_code = None,
      err_errors = errs\<rparr>"

subsection \<open>The operations of the model class\<close>

text \<open>
  The operations of the object-document mapper the repository calls, modelled on the
  collection. An identifier is cast from its string first, which fails without
  reaching the storage engine; the engine is asked next, and a fault is thrown as it
  is. A string is cast when it is 24 hexadecimal digits, the only strings the
  handlers pass on.
\<close>

definition is_hex :: "char \<Rightarrow> bool" where
  "is_hex c = (c \<in> set ''0123456789abcdefABCDEF'')"

definition hex_val :: "char \<Rightarrow> int" where
  "hex_val c =
     (if is_digit c then of_char c - 48
      else if c \<in> set ''abcdef'' then of_char c - 87
      else of_char c - 55)"

definition cast_objectid :: "string \<Rightarrow> objectid option" where
  "cast_objectid v =
     (if length v = 24 \<and> list_all is_hex v
      then Some (foldl (\<lambda>n c. 16 * n + hex_val c) 0 v) else None)"

definition CastError :: "string \<Rightarrow> js_error" where
  "CastError v =
     \<lparr>err_name = ''CastError'',
      err_message = ''Cast to ObjectId failed for value '' @ [CHR 0x22] @ v @ [CHR 0x22] @
        '' (type string) at path '' @ [CHR 0x22] @ ''_id'' @ [CHR 0x22] @
        '' for model '' @ [CHR 0x22] @ ''Restaurant'' @ [CHR 0x22],
      err_code = None,
      err_errors = []\<rparr>"

text \<open>
  The \<^verbatim>\<open>$regex\<close> operator of the storage engine with the option \<^verbatim>\<open>i\<close>: whether the
  pattern matches somewhere in the subject, letter case ignored. The engine is no
  part of the repository and is a parameter of the operations that query with it.
\<close>

type_synonym regex_engine = "string \<Rightarrow> string \<Rightarrow> bool"

text \<open>A path that the document lacks matches no expression.\<close>

definition regex_field :: "regex_engine \<Rightarrow> string \<Rightarrow> string option \<Rightarrow> bool" where
  "regex_field rx pat v = (case v of None \<Rightarrow> False | Some subject \<Rightarrow> rx pat subject)"

text \<open>
  \<^verbatim>\<open>{ $or: [ {'address.borough': {$regex: b, $options: 'i'}},
  {'borough': {$regex: b, $options: 'i'}} ] }\<close>
\<close>

definition borough_query :: "regex_engine \<Rightarrow> string \<Rightarrow> restaurant \<Rightarrow> bool" where
  "borough_query rx b d =
     (regex_field rx b (address_path addr_borough (content d)) \<or>
      regex_field rx b (borough (content d)))"

text \<open>
  \<^verbatim>\<open>Restaurant.find(query).sort({ _id: 1 }).skip(skip).limit(limitNum).lean()\<close>
  with a skip and a limit that are not negative, as the repository computes them; a
  limit of 0 is no limit.
\<close>

definition Restaurant_find ::
  "(restaurant \<Rightarrow> bool) \<Rightarrow> int \<Rightarrow> int \<Rightarrow> store \<Rightarrow> js_error + restaurant list" where
  "Restaurant_find query skip limitNum s =
     (case fault s of
        Some e \<Rightarrow> Inl e
      | None \<Rightarrow>
          let sorted_matches = sort_key oid (filter query (docs s));
              skipped = drop (nat skip) sorted_matches
          in Inr (if limitNum = 0 then skipped else take (nat limitNum) skipped))"

text \<open>\<^verbatim>\<open>Restaurant.findById(Id)\<close>: the document, or \<open>None\<close> for \<^verbatim>\<open>null\<close>.\<close>

definition Restaurant_findById :: "string \<Rightarrow> store \<Rightarrow> js_error + restaurant option" where
  "Restaurant_findById Id' s =
     (case cast_objectid Id' of
        None \<Rightarrow> Inl (CastError Id')
      | Some k \<Rightarrow>
          (case fault s of
             Some e \<Rightarrow> Inl e
           | None \<Rightarrow> Inr (find (\<lambda>d. oid d = k) (docs s))))"

fun remove_first :: "('a \<Rightarrow> bool) \<Rightarrow> 'a list \<Rightarrow> 'a list" where
  "remove_first P [] = []"
| "remove_first P (x # xs) = (if P x then xs else x # remove_first P xs)"

fun replace_first :: "('a \<Rightarrow> bool) \<Rightarrow> 'a \<Rightarrow> 'a list \<Rightarrow> 'a list" where
  "replace_first P y [] = []"
| "replace_first P y (x # xs) = (if P x then y # xs else x # replace_first P y xs)"

text \<open>\<^verbatim>\<open>Restaurant.findByIdAndDelete(Id)\<close>: removes the document and returns it.\<close>

definition Restaurant_findByIdAndDelete ::
  "string \<Rightarrow> store \<Rightarrow> (js_error + restaurant option) \<times> store" where
  "Restaurant_findByIdAndDelete Id' s =
     (case cast_objectid Id' of
        None \<Rightarrow> (Inl (CastError Id'), s)
      | Some k \<Rightarrow>
          (case fault s of
             Some e \<Rightarrow> (Inl e, s)
           | None \<Rightarrow>
               (Inr (find (\<lambda>d. oid d = k) (docs s)),
                s\<lparr>docs := remove_first (\<lambda>d. oid d = k) (docs s)\<rparr>)))"

text \<open>
  \<^verbatim>\<open>Restaurant.findByIdAndUpdate(Id, data, { new: true, runValidators: true,
  overwrite: true })\<close> in the versions of the object-document mapper that honour
  \<^verbatim>\<open>overwrite\<close> (later ones ignore it and set the named paths only): the update is cast
  by the schema (its setters apply, its defaults do not), validated as an update, and
  replaces the content of the document with the identifier; the new document is
  returned, \<open>None\<close> when there is none.
\<close>

definition Restaurant_findByIdAndUpdate ::
  "string \<Rightarrow> request_body \<Rightarrow> store \<Rightarrow> (js_error + restaurant option) \<times> store" where
  "Restaurant_findByIdAndUpdate Id' data s =
     (case cast_objectid Id' of
        None \<Rightarrow> (Inl (CastError Id'), s)
      | Some k \<Rightarrow>
          let f = apply_setters (known data); errs = validate_paths True f in
            if errs \<noteq> [] then (Inl (ValidationError ''Validation failed: '' errs), s)
            else (case fault s of
                Some e \<Rightarrow> (Inl e, s)
              | None \<Rightarrow>
                  (case find (\<lambda>d. oid d = k) (docs s) of
                     None \<Rightarrow> (Inr None, s)
                   | Some d \<Rightarrow>
                       let d' = \<lparr>oid = k, content = f\<rparr> in
                         (Inr (Some d'),
                          s\<lparr>docs := replace_first (\<lambda>d. oid d = k) d' (docs s)\<rparr>))))"

text \<open>
  \<^verbatim>\<open>new Restaurant(data)\<close> followed by \<^verbatim>\<open>save()\<close>: setters and defaults apply, the
  document is validated, and then inserted under a new identifier. The identifier the
  driver generates is one the collection does not hold; the model takes the successor
  of the largest.
\<close>

definition fresh_oid :: "restaurant list \<Rightarrow> objectid" where
  "fresh_oid ds = fold max (map oid ds) 0 + 1"

definition Restaurant_save :: "request_body \<Rightarrow> store \<Rightarrow> (js_error + restaurant) \<times> store" where
  "Restaurant_save data s =
     (let f = apply_defaults (apply_setters (known data)); errs = validate_paths False f in
        if errs \<noteq> [] then (Inl (ValidationError ''Restaurant validation failed: '' errs), s)
        else (case fault s of
            Some e \<Rightarrow> (Inl e, s)
          | None \<Rightarrow>
              let d = \<lparr>oid = fresh_oid (docs s), content = f\<rparr> in
                (Inr d, s\<lparr>docs := docs s @ [d]\<rparr>)))"

section \<open>The repository module\<close>

text \<open>
  Each function of \<^verbatim>\<open>db\<close> is a \<^verbatim>\<open>try\<close> block and a \<^verbatim>\<open>catch\<close> that rethrows: the
  outcome of the \<^verbatim>\<open>try\<close> block is computed first, and an error goes through the
  function's \<open>catch\<close>. A thrown error is \<open>Inl\<close>.
\<close>

definition log_call :: "db_call \<Rightarrow> store \<Rightarrow> store" where
  "log_call c s = s\<lparr>calls := calls s @ [c]\<rparr>"

text \<open>The messages of \<^verbatim>\<open>Object.values(error.errors)\<close>, joined.\<close>

definition validation_failed :: "js_error \<Rightarrow> js_error" where
  "validation_failed error =
     new_Error (''Validation failed: '' @ join '', '' (map snd (err_errors error)))"

definition addNewRestaurant_catch :: "js_error \<Rightarrow> js_error" where
  "addNewRestaurant_catch error =
     (if err_name error = ''ValidationError'' then validation_failed error
      else if err_code error = Some 11000 then new_Error ''Duplicate restaurant data detected''
      else new_Error (''Database error while adding restaurant: '' @ err_message error))"

definition addNewRestaurant ::
  "request_body option \<Rightarrow> store \<Rightarrow> (js_error + restaurant) \<times> store" where
  "addNewRestaurant data s0 =
     (let s = log_call AddNewRestaurant s0;
          (tried, s') =
            (case data of
               None \<Rightarrow> (Inl (new_Error ''Restaurant data is required''), s)
             | Some d \<Rightarrow> Restaurant_save d s)
      in (case tried of
            Inl error \<Rightarrow> (Inl (addNewRestaurant_catch error), s')
          | Inr savedRestaurant \<Rightarrow> (Inr savedRestaurant, s')))"

text \<open>
  The arguments are the numbers and the filter the handler validated. \<^verbatim>\<open>parseInt(n)\<close>
  of an integer is the integer, and \<^verbatim>\<open>|| d\<close> replaces a zero. A filter of
  \<^verbatim>\<open>null\<close> or of the empty string is falsy and builds no query.
\<close>

definition getAllRestaurants ::
  "regex_engine \<Rightarrow> int \<Rightarrow> int \<Rightarrow> string option \<Rightarrow> store \<Rightarrow> (js_error + restaurant list) \<times> store" where
  "getAllRestaurants rx page perPage boroughArg s0 =
     (let s = log_call (GetAllRestaurants page perPage boroughArg) s0;
          pageNum = (if page = 0 then 1 else page);
          limitNum = (if perPage = 0 then 10 else perPage);
          tried =
            (if pageNum < 1 then Inl (new_Error ''Page number must be greater than 0'')
             else if limitNum < 1 \<or> limitNum > 100
               then Inl (new_Error ''Items per page must be between 1 and 100'')
             else
               let skip = (pageNum - 1) * limitNum;
                   query = (case boroughArg of
                              None \<Rightarrow> (\<lambda>d. True)
                            | Some b \<Rightarrow> if b = [] then (\<lambda>d. True) else borough_query rx b)
               in Restaurant_find query skip limitNum s)
      in (case tried of
            Inl error \<Rightarrow>
              (Inl (new_Error (''Database error while fetching restaurants: '' @ err_message error)), s)
          | Inr restaurants \<Rightarrow> (Inr restaurants, s)))"

definition getRestaurantById_catch :: "js_error \<Rightarrow> js_error" where
  "getRestaurantById_catch error =
     (if err_message error = ''Restaurant not found'' then error
      else if err_name error = ''CastError'' then new_Error ''Invalid restaurant ID format''
      else new_Error (''Database error while fetching restaurant: '' @ err_message error))"

definition getRestaurantById :: "string \<Rightarrow> store \<Rightarrow> (js_error + restaurant) \<times> store" where
  "getRestaurantById Id' s0 =
     (let s = log_call (GetRestaurantById Id') s0;
          tried =
            (if Id' = [] then Inl (new_Error ''Restaurant ID is required'')
             else (case Restaurant_findById Id' s of
                 Inl e \<Rightarrow> Inl e
               | Inr None \<Rightarrow> Inl (new_Error ''Restaurant not found'')
               | Inr (Some restaurant) \<Rightarrow> Inr restaurant))
      in (case tried of
            Inl error \<Rightarrow> (Inl (getRestaurantById_catch error), s)
          | Inr restaurant \<Rightarrow> (Inr restaurant, s)))"

definition updateRestaurantById_catch :: "js_error \<Rightarrow> js_error" where
  "updateRestaurantById_catch error =
     (if err_message error = ''Restaurant not found'' then error
      else if err_name error = ''ValidationError'' then validation_failed error
      else if err_name error = ''CastError'' then new_Error ''Invalid restaurant ID format''
      else new_Error (''Database error while updating restaurant: '' @ err_message error))"

definition updateRestaurantById ::
  "request_body option \<Rightarrow> string \<Rightarrow> store \<Rightarrow> (js_error + restaurant) \<times> store" where
  "updateRestaurantById data Id' s0 =
     (let s = log_call (UpdateRestaurantById Id') s0;
          (tried, s') =
            (case data of
               None \<Rightarrow> (Inl (new_Error ''Update data is required''), s)
             | Some d \<Rightarrow>
                 if Id' = [] then (Inl (new_Error ''Restaurant ID is required''), s)
                 else (case Restaurant_findByIdAndUpdate Id' d s of
                     (Inl e, s1) \<Rightarrow> (Inl e, s1)
                   | (Inr None, s1) \<Rightarrow> (Inl (new_Error ''Restaurant not found''), s1)
                   | (Inr (Some updatedRestaurant), s1) \<Rightarrow> (Inr updatedRestaurant, s1)))
      in (case tried of
            Inl error \<Rightarrow> (Inl (updateRestaurantById_catch error), s')
          | Inr updatedRestaurant \<Rightarrow> (Inr updatedRestaurant, s')))"

definition deleteRestaurantById_catch :: "js_error \<Rightarrow> js_error" where
  "deleteRestaurantById_catch error =
     (if err_message error = ''Restaurant not found'' then error
      else if err_name error = ''CastError'' then new_Error ''Invalid restaurant ID format''
      else new_Error (''Database error while deleting restaurant: '' @ err_message error))"

definition deleteRestaurantById :: "string \<Rightarrow> store \<Rightarrow> (js_error + restaurant) \<times> store" where
  "deleteRestaurantById Id' s0 =
     (let s = log_call (DeleteRestaurantById Id') s0;
          (tried, s') =
            (if Id' = [] then (Inl (new_Error ''Restaurant ID is required''), s)
             else (case Restaurant_findByIdAndDelete Id' s of
                 (Inl e, s1) \<Rightarrow> (Inl e, s1)
               | (Inr None, s1) \<Rightarrow> (Inl (new_Error ''Restaurant not found''), s1)
               | (Inr (Some deletedRestaurant), s1) \<Rightarrow> (Inr deletedRestaurant, s1)))
      in (case tried of
            Inl error \<Rightarrow> (Inl (deleteRestaurantById_catch error), s')
          | Inr deletedRestaurant \<Rightarrow> (Inr deletedRestaurant, s')))"

section \<open>The request handlers\<close>

text \<open>
  A JSON value of a response body. \<open>JDoc\<close> stands for the serialisation of one stored
  document. An object is the list of its keys with their values.
\<close>

datatype json =
    JNull
  | JBool bool
  | JNum int
  | JStr string
  | JArr "json list"
  | JObj "(string \<times> json) list"
  | JDoc restaurant

text \<open>What a handler sends: the status code and the body (\<open>None\<close>: no body).\<close>

record response =
  status :: nat
  body :: "json option"

text \<open>\<^verbatim>\<open>res.status(code).json({ success: false, message })\<close>\<close>

definition failure :: "nat \<Rightarrow> string \<Rightarrow> response" where
  "failure code m =
     \<lparr>status = code, body = Some (JObj [(''success'', JBool False), (''message'', JStr m)])\<rparr>"

text \<open>
  The answer 500. \<^verbatim>\<open>error: process.env.NODE_ENV === 'development' ? error.message : undefined\<close>:
  a key whose value is \<^verbatim>\<open>undefined\<close> is not serialised, so the key \<^verbatim>\<open>error\<close> exists in
  development mode (\<open>dev\<close>) only.
\<close>

definition server_error :: "bool \<Rightarrow> string \<Rightarrow> js_error \<Rightarrow> response" where
  "server_error dev m error =
     \<lparr>status = 500,
      body = Some (JObj ([(''success'', JBool False), (''message'', JStr m)] @
                         (if dev then [(''error'', JStr (err_message error))] else [])))\<rparr>"

definition not_found_response :: "string \<Rightarrow> response" where
  "not_found_response ident = failure 404 (''Restaurant with ID '' @ ident @ '' not found'')"

text \<open>\<^verbatim>\<open>!req.params.id.match(/^[0-9a-fA-F]{24}$/)\<close> is the negation of this test.\<close>

definition valid_id_format :: "string \<Rightarrow> bool" where
  "valid_id_format ident = (length ident = 24 \<and> list_all is_hex ident)"

subsection \<open>GET /api/restaurants\<close>

text \<open>A \<^verbatim>\<open>null\<close> filter and, as it is falsy, an empty one give \<^verbatim>\<open>filter: null\<close>.\<close>

definition filter_json :: "string option \<Rightarrow> json" where
  "filter_json boroughFilter =
     (case boroughFilter of
        None \<Rightarrow> JNull
      | Some b \<Rightarrow> if b = [] then JNull else JObj [(''borough'', JStr b)])"

definition borough_json :: "string option \<Rightarrow> json" where
  "borough_json boroughFilter = (case boroughFilter of None \<Rightarrow> JNull | Some b \<Rightarrow> JStr b)"

definition list_success :: "int \<Rightarrow> int \<Rightarrow> string option \<Rightarrow> restaurant list \<Rightarrow> response" where
  "list_success pageNum perPageNum boroughFilter restaurants =
     (let totalReturned = int (length restaurants);
          hasMore = (totalReturned = perPageNum)
      in \<lparr>status = 200,
          body = Some (JObj
            [(''success'', JBool True),
             (''data'', JArr (map JDoc restaurants)),
             (''pagination'', JObj
                [(''page'', JNum pageNum),
                 (''perPage'', JNum perPageNum),
                 (''totalReturned'', JNum totalReturned),
                 (''hasMore'', JBool hasMore)]),
             (''filter'', filter_json boroughFilter),
             (''query'', JObj
                [(''page'', JNum pageNum),
                 (''perPage'', JNum perPageNum),
                 (''borough'', borough_json boroughFilter)])])\<rparr>)"

definition list_handler :: "regex_engine \<Rightarrow> bool \<Rightarrow> query \<Rightarrow> store \<Rightarrow> response \<times> store" where
  "list_handler rx dev q s =
     (case validate_list_query q of
        Inl (BadRequest m) \<Rightarrow> (failure 400 m, s)
      | Inl (Thrown error) \<Rightarrow>
          (server_error dev ''Internal server error while fetching restaurants'' error, s)
      | Inr (pageNum, perPageNum, boroughFilter) \<Rightarrow>
          (case getAllRestaurants rx pageNum perPageNum boroughFilter s of
             (Inr restaurants, s') \<Rightarrow>
               (list_success pageNum perPageNum boroughFilter restaurants, s')
           | (Inl error, s') \<Rightarrow>
               (server_error dev ''Internal server error while fetching restaurants'' error, s')))"

subsection \<open>GET /api/restaurants/:id\<close>

definition get_catch :: "bool \<Rightarrow> string \<Rightarrow> js_error \<Rightarrow> response" where
  "get_catch dev ident error =
     (if js_includes (err_message error) ''not found'' then not_found_response ident
      else server_error dev ''Internal server error while fetching restaurant'' error)"

definition get_handler :: "bool \<Rightarrow> string \<Rightarrow> store \<Rightarrow> response \<times> store" where
  "get_handler dev ident s =
     (if \<not> valid_id_format ident then (failure 400 ''Invalid restaurant ID format'', s)
      else (case getRestaurantById ident s of
          (Inr restaurant, s') \<Rightarrow>
            (\<lparr>status = 200,
              body = Some (JObj [(''success'', JBool True), (''data'', JDoc restaurant)])\<rparr>, s')
        | (Inl error, s') \<Rightarrow> (get_catch dev ident error, s')))"

subsection \<open>POST /api/restaurants\<close>

text \<open>\<^verbatim>\<open>!req.body || Object.keys(req.body).length === 0\<close>; an absent body is \<open>None\<close>.\<close>

definition body_missing :: "request_body option \<Rightarrow> bool" where
  "body_missing b = (case b of None \<Rightarrow> True | Some d \<Rightarrow> body_key_count d = 0)"

definition post_catch :: "bool \<Rightarrow> js_error \<Rightarrow> response" where
  "post_catch dev error =
     (if js_includes (err_message error) ''validation'' \<or>
         js_includes (err_message error) ''required'' \<or>
         js_includes (err_message error) ''duplicate'' \<or>
         err_name error = ''ValidationError''
      then failure 400 (''Validation error: '' @ err_message error)
      else if err_code error = Some 11000
        then failure 400 ''Restaurant with this information already exists''
      else server_error dev ''Internal server error while creating restaurant'' error)"

definition post_handler :: "bool \<Rightarrow> request_body option \<Rightarrow> store \<Rightarrow> response \<times> store" where
  "post_handler dev b s =
     (if body_missing b
      then (failure 400 ''Request body is required to create a restaurant'', s)
      else (case addNewRestaurant b s of
          (Inr restaurant, s') \<Rightarrow>
            (\<lparr>status = 201,
              body = Some (JObj [(''success'', JBool True), (''data'', JDoc restaurant),
                                 (''message'', JStr ''Restaurant created successfully'')])\<rparr>, s')
        | (Inl error, s') \<Rightarrow> (post_catch dev error, s')))"

subsection \<open>PUT /api/restaurants/:id\<close>

definition put_catch :: "bool \<Rightarrow> string \<Rightarrow> js_error \<Rightarrow> response" where
  "put_catch dev ident error =
     (if js_includes (err_message error) ''not found'' then not_found_response ident
      else if js_includes (err_message error) ''validation'' \<or>
              js_includes (err_message error) ''required'' \<or>
              err_name error = ''ValidationError''
        then failure 400 (''Validation error: '' @ err_message error)
      else server_error dev ''Internal server error while updating restaurant'' error)"

definition put_handler ::
  "bool \<Rightarrow> string \<Rightarrow> request_body option \<Rightarrow> store \<Rightarrow> response \<times> store" where
  "put_handler dev ident b s =
     (if \<not> valid_id_format ident then (failure 400 ''Invalid restaurant ID format'', s)
      else if body_missing b
        then (failure 400 ''Request body is required to update a restaurant'', s)
      else (case updateRestaurantById b ident s of
          (Inr restaurant, s') \<Rightarrow>
            (\<lparr>status = 200,
              body = Some (JObj [(''success'', JBool True), (''data'', JDoc restaurant),
                                 (''message'', JStr ''Restaurant updated successfully'')])\<rparr>, s')
        | (Inl error, s') \<Rightarrow> (put_catch dev ident error, s')))"

subsection \<open>DELETE /api/restaurants/:id\<close>

definition delete_catch :: "bool \<Rightarrow> string \<Rightarrow> js_error \<Rightarrow> response" where
  "delete_catch dev ident error =
     (if js_includes (err_message error) ''not found'' then not_found_response ident
      else server_error dev ''Internal server error while deleting restaurant'' error)"

text \<open>\<^verbatim>\<open>res.status(204).send()\<close> sends no body.\<close>

definition delete_handler :: "bool \<Rightarrow> string \<Rightarrow> store \<Rightarrow> response \<times> store" where
  "delete_handler dev ident s =
     (if \<not> valid_id_format ident then (failure 400 ''Invalid restaurant ID format'', s)
      else (case deleteRestaurantById ident s of
          (Inr restaurant, s') \<Rightarrow> (\<lparr>status = 204, body = None\<rparr>, s')
        | (Inl error, s') \<Rightarrow> (delete_catch dev ident error, s')))"

section \<open>Notions for the properties\<close>

text \<open>
  The value of a key of the response body: \<open>None\<close> when the body is no object or has
  no such key.
\<close>

definition response_field :: "string \<Rightarrow> response \<Rightarrow> json option" where
  "response_field k r = (case body r of Some (JObj kvs) \<Rightarrow> map_of kvs k | _ \<Rightarrow> None)"

text \<open>
  The characters with a meaning of their own in a regular expression of the storage
  engine: backslash, caret, dollar, dot, bar, question mark, star, plus, parentheses,
  brackets and braces.
\<close>

definition regex_special :: "char \<Rightarrow> bool" where
  "regex_special c = (c \<in> set (CHR 0x5C # ''^$.|?*+()[]{}''))"

text \<open>
  A pattern character the engine matches literally and folds as ASCII: not the NUL
  character, no special character, and an ASCII character or white space.
\<close>

definition caseless_literal :: "char \<Rightarrow> bool" where
  "caseless_literal c =
     (c \<noteq> CHR 0x00 \<and> \<not> regex_special c \<and> ((of_char c :: nat) < 128 \<or> js_space c))"

definition ascii_lower :: "char \<Rightarrow> char" where
  "ascii_lower c =
     (let n = (of_char c :: nat) in if 65 \<le> n \<and> n \<le> 90 then char_of (n + 32) else c)"

text \<open>
  \<open>pat\<close> occurs in \<open>subject\<close> as a contiguous run of characters when the ASCII
  letters of both are taken in lower case.
\<close>

definition contains_ci :: "string \<Rightarrow> string \<Rightarrow> bool" where
  "contains_ci subject pat = sublist (map ascii_lower pat) (map ascii_lower subject)"

text \<open>
  What the properties need of the expression engine: a pattern of literal characters
  is searched for as it is, letter case ignored. Nothing is asked of it on other
  patterns.
\<close>

definition literal_engine :: "regex_engine \<Rightarrow> bool" where
  "literal_engine rx =
     (\<forall>pat subject. list_all caseless_literal pat \<longrightarrow> rx pat subject = contains_ci subject pat)"

text \<open>An engine for the examples: it takes every pattern literally.\<close>

definition literal_search :: regex_engine where
  "literal_search pat subject = contains_ci subject pat"

text \<open>A document has the filter text in its top-level or in its nested borough.\<close>

definition borough_contains :: "string \<Rightarrow> restaurant \<Rightarrow> bool" where
  "borough_contains b d =
     ((\<exists>t. borough (content d) = Some t \<and> contains_ci t b) \<or>
      (\<exists>a t. address (content d) = Some a \<and> addr_borough a = Some t \<and> contains_ci t b))"

text \<open>The same DELETE request sent \<open>n\<close> times in a row: the answers, and the final state.\<close>

fun delete_times :: "nat \<Rightarrow> bool \<Rightarrow> string \<Rightarrow> store \<Rightarrow> response list \<times> store" where
  "delete_times 0 dev ident s = ([], s)"
| "delete_times (Suc n) dev ident s =
     (let (r, s1) = delete_handler dev ident s;
          (rs, s2) = delete_times n dev ident s1
      in (r # rs, s2))"

text \<open>
  A \<^verbatim>\<open>page\<close> value is in order: it has a string, the string is decimal digits only and
  the number is between 1 and 10000; a \<^verbatim>\<open>perPage\<close> value likewise, up to 100.
\<close>

definition page_accepted :: "qvalue \<Rightarrow> bool" where
  "page_accepted v =
     (case js_toString v of
        None \<Rightarrow> False
      | Some str \<Rightarrow> digits_only str \<and> 1 \<le> parseInt10 str \<and> parseInt10 str \<le> 10000)"

definition perPage_accepted :: "qvalue \<Rightarrow> bool" where
  "perPage_accepted v =
     (case js_toString v of
        None \<Rightarrow> False
      | Some str \<Rightarrow> digits_only str \<and> 1 \<le> parseInt10 str \<and> parseInt10 str \<le> 100)"

text \<open>
  The number of a parameter that is in order, or the default when it is absent (and,
  to have a value everywhere, when it has no string).
\<close>

definition number_or :: "int \<Rightarrow> qvalue option \<Rightarrow> int" where
  "number_or d p =
     (case p of
        None \<Rightarrow> d
      | Some v \<Rightarrow> (case js_toString v of None \<Rightarrow> d | Some str \<Rightarrow> parseInt10 str))"

subsection \<open>Data of the examples\<close>

definition empty_store :: store where
  "empty_store = \<lparr>docs = [], fault = None, calls = []\<rparr>"

definition sample_address :: "string \<Rightarrow> address_fields" where
  "sample_address b =
     \<lparr>street = Some ''123 Main Street'', city = Some ''New York'', state = Some ''NY'',
      zipCode = Some ''10001'', addr_borough = Some b\<rparr>"

definition sample_fields :: restaurant_fields where
  "sample_fields =
     \<lparr>name = Some ''Mario's Italian Bistro'',
      address = Some (sample_address ''Manhattan''),
      borough = Some ''Manhattan'',
      cuisine = Some ''Italian'',
      phone = Some ''(212) 555-0101'',
      email = Some ''contact@mariosbistro.com'',
      website = Some ''https://www.mariosbistro.com'',
      rating = Some (9 / 2),
      priceRange = Some ''$$$'',
      hours = None,
      isActive = Some True\<rparr>"

definition sample_body :: request_body where
  "sample_body = \<lparr>known = sample_fields, unknown_keys = []\<rparr>"

text \<open>The sample record with a phone number that is not of the form (XXX) XXX-XXXX.\<close>

definition bad_phone_body :: request_body where
  "bad_phone_body = \<lparr>known = sample_fields\<lparr>phone := Some ''212-555-0101''\<rparr>, unknown_keys = []\<rparr>"

definition empty_fields :: restaurant_fields where
  "empty_fields =
     \<lparr>name = None, address = None, borough = None, cuisine = None, phone = None,
      email = None, website = None, rating = None, priceRange = None, hours = None,
      isActive = None\<rparr>"

definition empty_body :: request_body where
  "empty_body = \<lparr>known = empty_fields, unknown_keys = []\<rparr>"

text \<open>
  Three documents: one with the borough in the nested path only, one with it at the
  top level only and in capitals, one of another borough.
\<close>

definition doc_a :: restaurant where
  "doc_a = \<lparr>oid = 30, content = sample_fields\<lparr>borough := None\<rparr>\<rparr>"

definition doc_b :: restaurant where
  "doc_b = \<lparr>oid = 10, content = sample_fields\<lparr>address := None, borough := Some ''MANHATTAN''\<rparr>\<rparr>"

definition doc_c :: restaurant where
  "doc_c = \<lparr>oid = 20,
             content = sample_fields\<lparr>address := Some (sample_address ''Queens''),
                                     borough := Some ''Queens''\<rparr>\<rparr>"

definition sample_store :: store where
  "sample_store = \<lparr>docs = [doc_a, doc_b, doc_c], fault = None, calls = []\<rparr>"

definition sample_id :: string where
  "sample_id = ''507f1f77bcf86cd799439011''"

definition one_doc_store :: store where
  "one_doc_store =
     \<lparr>docs = [\<lparr>oid = 24912482966938930280208240657, content = sample_fields\<rparr>],
      fault = None, calls = []\<rparr>"

text \<open>A storage engine that fails with an error whose text has the words "not found".\<close>

definition host_not_found :: js_error where
  "host_not_found =
     \<lparr>err_name = ''MongoNetworkError'', err_message = ''getaddrinfo: host not found'',
      err_code = None, err_errors = []\<rparr>"

definition down_store :: store where
  "down_store = \<lparr>docs = [], fault = Some host_not_found, calls = []\<rparr>"

text \<open>
  The requests \<^verbatim>\<open>?page[toString]=1\<close>, \<^verbatim>\<open>?perPage[toString]=1\<close> and
  \<^verbatim>\<open>?page[0][toString]=1\<close> as the extended query parser of Express 4 reads them: the
  value is an object with the own key \<^verbatim>\<open>toString\<close>, or an array that holds one.
\<close>

definition uncoercible_page_query :: query where
  "uncoercible_page_query = [(''page'', QObj [(''toString'', QStr ''1'')])]"

definition uncoercible_perPage_query :: query where
  "uncoercible_perPage_query = [(''perPage'', QObj [(''toString'', QStr ''1'')])]"

definition uncoercible_array_query :: query where
  "uncoercible_array_query = [(''page'', QArr [QObj [(''toString'', QStr ''1'')]])]"

text \<open>The request \<^verbatim>\<open>?borough=Manhattan&page=1&perPage=5\<close>.\<close>

definition manhattan_query :: query where
  "manhattan_query = [(''borough'', QStr ''Manhattan''), (''page'', QStr ''1''), (''perPage'', QStr ''5'')]"

section \<open>Properties of the list route\<close>

lemma sublist_join: "k \<in> set ks \<Longrightarrow> sublist k (join sep ks)"
proof (induction sep ks rule: join.induct)
  case (1 sep)
  then show ?case by simp
next
  case (2 sep x)
  then show ?case by simp
next
  case (3 sep x y ys)
  show ?case
  proof (cases "k = x")
    case True
    then show ?thesis by simp
  next
    case False
    with 3 have "sublist k (join sep (y # ys))" by simp
    then obtain ps ss where "join sep (y # ys) = ps @ k @ ss"
      by (auto simp: sublist_def)
    then have "join sep (x # y # ys) = (x @ sep @ ps) @ k @ ss" by simp
    then show ?thesis unfolding sublist_def by blast
  qed
qed

lemma sublist_in_append: "sublist k m \<Longrightarrow> sublist k (a @ m @ b)"
  by (metis sublist_appendI sublist_order.order.trans)

lemma list_handler_extra:
  "extraParamKeys q \<noteq> [] \<Longrightarrow>
   list_handler rx dev q s = (failure 400 (extra_message (extraParamKeys q)), s)"
  by (simp add: list_handler_def validate_list_query_def validate_extra_def)

text \<open>
  C1. A list request whose query has a key other than \<^verbatim>\<open>page\<close>, \<^verbatim>\<open>perPage\<close> and
  \<^verbatim>\<open>borough\<close> is answered 400 with one message that lists the keys that are not allowed
  and the three that are; the store is untouched. The answer does not depend on the
  values of the other parameters, so the check comes before their validation. Every
  offending key occurs in the message.
\<close>

theorem C1_unknown_parameters_rejected_first:
  assumes "k \<in> fst ` set q" and "k \<notin> {''page'', ''perPage'', ''borough''}"
  shows "list_handler rx dev q s =
           (failure 400
              (''Invalid query parameters: '' @ join '', '' (extraParamKeys q) @
               ''. Allowed parameters: page, perPage, borough''), s)
         \<and> (\<forall>k' \<in> fst ` set q. k' \<notin> {''page'', ''perPage'', ''borough''} \<longrightarrow>
               js_includes
                 (''Invalid query parameters: '' @ join '', '' (extraParamKeys q) @
                  ''. Allowed parameters: page, perPage, borough'') k')"
proof -
  from assms have "k \<in> set (extraParamKeys q)"
    by (auto simp: extraParamKeys_def)
  then have ne: "extraParamKeys q \<noteq> []" by auto
  have msg: "extra_message (extraParamKeys q) =
      ''Invalid query parameters: '' @ join '', '' (extraParamKeys q) @
      ''. Allowed parameters: page, perPage, borough''"
    by (simp add: extra_message_def allowedParams_def)
  have named: "js_includes (''Invalid query parameters: '' @ join '', '' (extraParamKeys q) @
                  ''. Allowed parameters: page, perPage, borough'') k'"
    if "k' \<in> fst ` set q" "k' \<notin> {''page'', ''perPage'', ''borough''}" for k'
  proof -
    from that have "k' \<in> set (extraParamKeys q)"
      by (auto simp: extraParamKeys_def)
    then have "sublist k' (join '', '' (extraParamKeys q))" by (rule sublist_join)
    then show ?thesis unfolding js_includes_def by (rule sublist_in_append)
  qed
  from list_handler_extra[OF ne] msg named show ?thesis by auto
qed

text \<open>The request \<^verbatim>\<open>?foo=1&page=0\<close>: the unknown key is reported, not the page.\<close>

theorem C1_unknown_parameters_witness:
  "list_handler literal_search False [(''foo'', QStr ''1''), (''page'', QStr ''0'')] empty_store =
     (failure 400 ''Invalid query parameters: foo. Allowed parameters: page, perPage, borough'',
      empty_store)"
  using C1_unknown_parameters_rejected_first
    [of "''foo''" "[(''foo'', QStr ''1''), (''page'', QStr ''0'')]" literal_search False empty_store]
  by (simp add: extraParamKeys_def)

lemma extraParamKeys_Nil:
  "fst ` set q \<subseteq> {''page'', ''perPage'', ''borough''} \<Longrightarrow> extraParamKeys q = []"
  unfolding extraParamKeys_def filter_empty_conv by auto

lemma getAllRestaurants_store:
  "snd (getAllRestaurants rx p pp b s) = log_call (GetAllRestaurants p pp b) s"
  by (simp add: getAllRestaurants_def Let_def split: sum.splits)

lemma list_handler_page_error:
  "extraParamKeys q = [] \<Longrightarrow> validate_page (map_of q ''page'') = Inl (BadRequest m) \<Longrightarrow>
   list_handler rx dev q s = (failure 400 m, s)"
  by (simp add: list_handler_def validate_list_query_def validate_extra_def)

lemma list_handler_page_thrown:
  "extraParamKeys q = [] \<Longrightarrow> validate_page (map_of q ''page'') = Inl (Thrown e) \<Longrightarrow>
   list_handler rx dev q s =
     (server_error dev ''Internal server error while fetching restaurants'' e, s)"
  by (simp add: list_handler_def validate_list_query_def validate_extra_def)

lemma list_handler_perPage_error:
  "extraParamKeys q = [] \<Longrightarrow> validate_page (map_of q ''page'') = Inr p \<Longrightarrow>
   validate_perPage (map_of q ''perPage'') = Inl (BadRequest m) \<Longrightarrow>
   list_handler rx dev q s = (failure 400 m, s)"
  by (simp add: list_handler_def validate_list_query_def validate_extra_def)

lemma list_handler_perPage_thrown:
  "extraParamKeys q = [] \<Longrightarrow> validate_page (map_of q ''page'') = Inr p \<Longrightarrow>
   validate_perPage (map_of q ''perPage'') = Inl (Thrown e) \<Longrightarrow>
   list_handler rx dev q s =
     (server_error dev ''Internal server error while fetching restaurants'' e, s)"
  by (simp add: list_handler_def validate_list_query_def validate_extra_def)

lemma list_handler_borough_error:
  "extraParamKeys q = [] \<Longrightarrow> validate_page (map_of q ''page'') = Inr p \<Longrightarrow>
   validate_perPage (map_of q ''perPage'') = Inr pp \<Longrightarrow>
   validate_borough (map_of q ''borough'') = Inl m \<Longrightarrow>
   list_handler rx dev q s = (failure 400 m, s)"
  by (simp add: list_handler_def validate_list_query_def validate_extra_def)

lemma list_handler_valid:
  assumes "extraParamKeys q = []" "validate_page (map_of q ''page'') = Inr p"
    "validate_perPage (map_of q ''perPage'') = Inr pp"
    "validate_borough (map_of q ''borough'') = Inr b"
  shows "list_handler rx dev q s =
     (case getAllRestaurants rx p pp b s of
        (Inr restaurants, s') \<Rightarrow> (list_success p pp b restaurants, s')
      | (Inl error, s') \<Rightarrow>
          (server_error dev ''Internal server error while fetching restaurants'' error, s'))"
  using assms by (simp add: list_handler_def validate_list_query_def validate_extra_def)

lemma list_handler_valid_calls:
  assumes "extraParamKeys q = []" "validate_page (map_of q ''page'') = Inr p"
    "validate_perPage (map_of q ''perPage'') = Inr pp"
    "validate_borough (map_of q ''borough'') = Inr b"
  shows "snd (list_handler rx dev q s) = log_call (GetAllRestaurants p pp b) s"
proof -
  obtain r s' where g: "getAllRestaurants rx p pp b s = (r, s')" by (cases "getAllRestaurants rx p pp b s")
  with getAllRestaurants_store[of rx p pp b s] have "s' = log_call (GetAllRestaurants p pp b) s" by simp
  with g show ?thesis
    by (simp add: list_handler_valid[OF assms] split: sum.splits)
qed

lemma validate_page_Inr:
  "p = None \<or> (\<exists>v. p = Some v \<and> page_accepted v) \<Longrightarrow> validate_page p = Inr (number_or 1 p)"
  by (auto simp: validate_page_def page_accepted_def number_or_def Let_def split: option.splits)

lemma validate_perPage_Inr:
  "p = None \<or> (\<exists>v. p = Some v \<and> perPage_accepted v) \<Longrightarrow> validate_perPage p = Inr (number_or 10 p)"
  by (auto simp: validate_perPage_def perPage_accepted_def number_or_def Let_def split: option.splits)

text \<open>
  What the handler does with \<^verbatim>\<open>page\<close> and \<^verbatim>\<open>perPage\<close> on a request without unknown keys.
  A \<^verbatim>\<open>page\<close> whose coercion to a string throws is answered 500 by the \<^verbatim>\<open>catch\<close> of the
  handler. A \<^verbatim>\<open>page\<close> with a string that is not digits only, or is below 1, or is above
  10000, is answered 400 with the message of that violation. With the page absent or
  in order the same holds of \<^verbatim>\<open>perPage\<close> and the bounds 1 and 100. With both absent or in
  order the request is either refused for its borough or reaches the repository with
  the parsed numbers, 1 for an absent page and 10 for an absent \<^verbatim>\<open>perPage\<close>. Every one of
  these answers but the last leaves the store, with its record of repository calls,
  untouched. The six messages differ from one another.
\<close>

lemma page_and_perPage_checks:
  assumes "fst ` set q \<subseteq> {''page'', ''perPage'', ''borough''}"
    and "map_of q ''page'' = pg" and "map_of q ''perPage'' = pp"
  shows
    "(\<forall>v. pg = Some v \<and> js_toString v = None \<longrightarrow>
        list_handler rx dev q s =
          (server_error dev ''Internal server error while fetching restaurants''
             TypeError_primitive, s))
   \<and> (\<forall>v t. pg = Some v \<and> js_toString v = Some t \<and> \<not> digits_only t \<longrightarrow>
        list_handler rx dev q s = (failure 400 ''Page parameter must be a positive integer'', s))
   \<and> (\<forall>v t. pg = Some v \<and> js_toString v = Some t \<and> digits_only t \<and> parseInt10 t < 1 \<longrightarrow>
        list_handler rx dev q s = (failure 400 ''Page parameter must be greater than 0'', s))
   \<and> (\<forall>v t. pg = Some v \<and> js_toString v = Some t \<and> digits_only t \<and> parseInt10 t > 10000 \<longrightarrow>
        list_handler rx dev q s = (failure 400 ''Page parameter cannot exceed 10000'', s))
   \<and> ((pg = None \<or> (\<exists>v. pg = Some v \<and> page_accepted v)) \<longrightarrow>
       (\<forall>w. pp = Some w \<and> js_toString w = None \<longrightarrow>
          list_handler rx dev q s =
            (server_error dev ''Internal server error while fetching restaurants''
               TypeError_primitive, s))
     \<and> (\<forall>w t. pp = Some w \<and> js_toString w = Some t \<and> \<not> digits_only t \<longrightarrow>
          list_handler rx dev q s =
            (failure 400 ''perPage parameter must be a positive integer'', s))
     \<and> (\<forall>w t. pp = Some w \<and> js_toString w = Some t \<and> digits_only t \<and> parseInt10 t < 1 \<longrightarrow>
          list_handler rx dev q s =
            (failure 400 ''perPage parameter must be greater than 0'', s))
     \<and> (\<forall>w t. pp = Some w \<and> js_toString w = Some t \<and> digits_only t \<and> parseInt10 t > 100 \<longrightarrow>
          list_handler rx dev q s =
            (failure 400 ''perPage parameter cannot exceed 100 items'', s))
     \<and> ((pp = None \<or> (\<exists>w. pp = Some w \<and> perPage_accepted w)) \<longrightarrow>
          (\<exists>m. validate_borough (map_of q ''borough'') = Inl m \<and>
               list_handler rx dev q s = (failure 400 m, s))
        \<or> (\<exists>b. validate_borough (map_of q ''borough'') = Inr b \<and>
               calls (snd (list_handler rx dev q s)) =
                 calls s @ [GetAllRestaurants (number_or 1 pg) (number_or 10 pp) b])))
   \<and> distinct [''Page parameter must be a positive integer'',
                ''Page parameter must be greater than 0'',
                ''Page parameter cannot exceed 10000'',
                ''perPage parameter must be a positive integer'',
                ''perPage parameter must be greater than 0'',
                ''perPage parameter cannot exceed 100 items'']"
proof -
  note ex = extraParamKeys_Nil[OF assms(1)]
  have p0: "list_handler rx dev q s =
          (server_error dev ''Internal server error while fetching restaurants''
             TypeError_primitive, s)"
    if "pg = Some v" "js_toString v = None" for v
    using that assms(2) by (intro list_handler_page_thrown[OF ex]) (simp add: validate_page_def)
  have p1: "list_handler rx dev q s = (failure 400 ''Page parameter must be a positive integer'', s)"
    if "pg = Some v" "js_toString v = Some t" "\<not> digits_only t" for v t
    using that assms(2) by (intro list_handler_page_error[OF ex]) (simp add: validate_page_def)
  have p2: "list_handler rx dev q s = (failure 400 ''Page parameter must be greater than 0'', s)"
    if "pg = Some v" "js_toString v = Some t" "digits_only t" "parseInt10 t < 1" for v t
    using that assms(2) by (intro list_handler_page_error[OF ex]) (simp add: validate_page_def)
  have p3: "list_handler rx dev q s = (failure 400 ''Page parameter cannot exceed 10000'', s)"
    if "pg = Some v" "js_toString v = Some t" "digits_only t" "parseInt10 t > 10000" for v t
    using that assms(2) by (intro list_handler_page_error[OF ex]) (simp add: validate_page_def)
  have rest: "(\<forall>w. pp = Some w \<and> js_toString w = None \<longrightarrow>
          list_handler rx dev q s =
            (server_error dev ''Internal server error while fetching restaurants''
               TypeError_primitive, s))
     \<and> (\<forall>w t. pp = Some w \<and> js_toString w = Some t \<and> \<not> digits_only t \<longrightarrow>
          list_handler rx dev q s =
            (failure 400 ''perPage parameter must be a positive integer'', s))
     \<and> (\<forall>w t. pp = Some w \<and> js_toString w = Some t \<and> digits_only t \<and> parseInt10 t < 1 \<longrightarrow>
          list_handler rx dev q s =
            (failure 400 ''perPage parameter must be greater than 0'', s))
     \<and> (\<forall>w t. pp = Some w \<and> js_toString w = Some t \<and> digits_only t \<and> parseInt10 t > 100 \<longrightarrow>
          list_handler rx dev q s =
            (failure 400 ''perPage parameter cannot exceed 100 items'', s))
     \<and> ((pp = None \<or> (\<exists>w. pp = Some w \<and> perPage_accepted w)) \<longrightarrow>
          (\<exists>m. validate_borough (map_of q ''borough'') = Inl m \<and>
               list_handler rx dev q s = (failure 400 m, s))
        \<or> (\<exists>b. validate_borough (map_of q ''borough'') = Inr b \<and>
               calls (snd (list_handler rx dev q s)) =
                 calls s @ [GetAllRestaurants (number_or 1 pg) (number_or 10 pp) b]))"
    if ok: "pg = None \<or> (\<exists>v. pg = Some v \<and> page_accepted v)"
  proof -
    have vp: "validate_page (map_of q ''page'') = Inr (number_or 1 pg)"
      using validate_page_Inr[OF ok] assms(2) by simp
    have q0: "list_handler rx dev q s =
            (server_error dev ''Internal server error while fetching restaurants''
               TypeError_primitive, s)"
      if "pp = Some w" "js_toString w = None" for w
      using that assms(3)
      by (intro list_handler_perPage_thrown[OF ex vp]) (simp add: validate_perPage_def)
    have q1: "list_handler rx dev q s =
            (failure 400 ''perPage parameter must be a positive integer'', s)"
      if "pp = Some w" "js_toString w = Some t" "\<not> digits_only t" for w t
      using that assms(3)
      by (intro list_handler_perPage_error[OF ex vp]) (simp add: validate_perPage_def)
    have q2: "list_handler rx dev q s =
            (failure 400 ''perPage parameter must be greater than 0'', s)"
      if "pp = Some w" "js_toString w = Some t" "digits_only t" "parseInt10 t < 1" for w t
      using that assms(3)
      by (intro list_handler_perPage_error[OF ex vp]) (simp add: validate_perPage_def)
    have q3: "list_handler rx dev q s =
            (failure 400 ''perPage parameter cannot exceed 100 items'', s)"
      if "pp = Some w" "js_toString w = Some t" "digits_only t" "parseInt10 t > 100" for w t
      using that assms(3)
      by (intro list_handler_perPage_error[OF ex vp]) (simp add: validate_perPage_def)
    have q4: "(\<exists>m. validate_borough (map_of q ''borough'') = Inl m \<and>
               list_handler rx dev q s = (failure 400 m, s))
        \<or> (\<exists>b. validate_borough (map_of q ''borough'') = Inr b \<and>
               calls (snd (list_handler rx dev q s)) =
                 calls s @ [GetAllRestaurants (number_or 1 pg) (number_or 10 pp) b])"
      if ok2: "pp = None \<or> (\<exists>w. pp = Some w \<and> perPage_accepted w)"
    proof -
      have vpp: "validate_perPage (map_of q ''perPage'') = Inr (number_or 10 pp)"
        using validate_perPage_Inr[OF ok2] assms(3) by simp
      show ?thesis
      proof (cases "validate_borough (map_of q ''borough'')")
        case (Inl m)
        with list_handler_borough_error[OF ex vp vpp Inl] show ?thesis by blast
      next
        case (Inr b)
        from list_handler_valid_calls[OF ex vp vpp Inr, of rx dev s] Inr
        show ?thesis by (simp add: log_call_def)
      qed
    qed
    from q0 q1 q2 q3 q4 show ?thesis by blast
  qed
  have d: "distinct [''Page parameter must be a positive integer'',
                ''Page parameter must be greater than 0'',
                ''Page parameter cannot exceed 10000'',
                ''perPage parameter must be a positive integer'',
                ''perPage parameter must be greater than 0'',
                ''perPage parameter cannot exceed 100 items'']"
    by simp
  from p0 p1 p2 p3 rest d show ?thesis by blast
qed

text \<open>
  The requests \<^verbatim>\<open>?page=0\<close>, \<^verbatim>\<open>?page=1.5\<close>, \<^verbatim>\<open>?page=10001\<close>, \<^verbatim>\<open>?perPage=150\<close>,
  \<^verbatim>\<open>?page=007&perPage=100\<close> and the request without parameters.
\<close>

lemma page_and_perPage_examples:
  "list_handler literal_search False [(''page'', QStr ''0'')] sample_store =
     (failure 400 ''Page parameter must be greater than 0'', sample_store)
   \<and> list_handler literal_search False [(''page'', QStr ''1.5'')] sample_store =
     (failure 400 ''Page parameter must be a positive integer'', sample_store)
   \<and> list_handler literal_search False [(''page'', QStr ''10001'')] sample_store =
     (failure 400 ''Page parameter cannot exceed 10000'', sample_store)
   \<and> list_handler literal_search False [(''perPage'', QStr ''150'')] sample_store =
     (failure 400 ''perPage parameter cannot exceed 100 items'', sample_store)
   \<and> calls (snd (list_handler literal_search False
         [(''page'', QStr ''007''), (''perPage'', QStr ''100'')] sample_store)) =
     [GetAllRestaurants 7 100 None]
   \<and> calls (snd (list_handler literal_search False [] sample_store)) =
     [GetAllRestaurants 1 10 None]"
proof -
  have d0: "digits_only ''0''" "digits_only ''10001''" "digits_only ''150''"
    "digits_only ''007''" "digits_only ''100''" "\<not> digits_only ''1.5''"
    by (simp_all add: digits_only_def is_digit_def)
  have n0: "parseInt10 ''0'' = 0" "parseInt10 ''10001'' = 10001" "parseInt10 ''150'' = 150"
    "parseInt10 ''007'' = 7" "parseInt10 ''100'' = 100"
    by (simp_all add: parseInt10_def digit_val_def)
  have b0: "validate_borough None = Inr None"
    by (simp add: validate_borough_def)
  have c0: "calls sample_store = []"
    by (simp add: sample_store_def)
  show ?thesis
    using
      page_and_perPage_checks [of "[(''page'', QStr ''0'')]" "Some (QStr ''0'')" None
        literal_search False sample_store]
      page_and_perPage_checks [of "[(''page'', QStr ''1.5'')]" "Some (QStr ''1.5'')" None
        literal_search False sample_store]
      page_and_perPage_checks [of "[(''page'', QStr ''10001'')]" "Some (QStr ''10001'')" None
        literal_search False sample_store]
      page_and_perPage_checks [of "[(''perPage'', QStr ''150'')]" None "Some (QStr ''150'')"
        literal_search False sample_store]
      page_and_perPage_checks [of "[(''page'', QStr ''007''), (''perPage'', QStr ''100'')]"
        "Some (QStr ''007'')" "Some (QStr ''100'')" literal_search False sample_store]
      page_and_perPage_checks [of "[]" None None literal_search False sample_store]
    by (simp add: d0 n0 b0 c0 page_accepted_def perPage_accepted_def number_or_def)
qed

text \<open>
  C2 fails on the code. The request \<^verbatim>\<open>?page[toString]=1\<close> has a \<^verbatim>\<open>page\<close> that is not digits
  only, and it is not answered 400 with a message about the page: the test of the
  value against \<^verbatim>\<open>/^\d+$/\<close> throws before it can fail, and the \<^verbatim>\<open>catch\<close> of the handler
  answers 500 "Internal server error while fetching restaurants". The same happens
  for \<^verbatim>\<open>perPage\<close>, and for an array that holds such an object. The check of the borough
  beside them tests the type of its value first and answers 400.
\<close>

theorem C2_uncoercible_page_answers_500:
  "list_handler literal_search False uncoercible_page_query sample_store =
     (\<lparr>status = 500,
       body = Some (JObj [(''success'', JBool False),
                          (''message'', JStr ''Internal server error while fetching restaurants'')])\<rparr>,
      sample_store)
   \<and> list_handler literal_search False uncoercible_perPage_query sample_store =
     (\<lparr>status = 500,
       body = Some (JObj [(''success'', JBool False),
                          (''message'', JStr ''Internal server error while fetching restaurants'')])\<rparr>,
      sample_store)
   \<and> list_handler literal_search False uncoercible_array_query sample_store =
     (\<lparr>status = 500,
       body = Some (JObj [(''success'', JBool False),
                          (''message'', JStr ''Internal server error while fetching restaurants'')])\<rparr>,
      sample_store)
   \<and> list_handler literal_search False [(''borough'', QObj [(''toString'', QStr ''1'')])]
       sample_store =
     (failure 400 ''Borough parameter must be a string'', sample_store)"
  by (simp add: list_handler_def validate_list_query_def validate_extra_def extraParamKeys_def
      validate_page_def validate_perPage_def validate_borough_def server_error_def
      uncoercible_page_query_def uncoercible_perPage_query_def uncoercible_array_query_def)

lemma js_trim_decomp:
  "\<exists>pre post. b = pre @ js_trim b @ post \<and> list_all js_space pre \<and> list_all js_space post"
proof -
  define m where "m = dropWhile js_space b"
  have 1: "b = takeWhile js_space b @ m" by (simp add: m_def)
  have "m = rev (dropWhile js_space (rev m)) @ rev (takeWhile js_space (rev m))"
    by (metis rev_append rev_rev_ident takeWhile_dropWhile_id)
  then have 2: "m = js_trim b @ rev (takeWhile js_space (rev m))"
    unfolding js_trim_def m_def .
  have 3: "list_all js_space (takeWhile js_space b)"
    by (simp add: list_all_iff) (meson set_takeWhileD)
  have 4: "list_all js_space (rev (takeWhile js_space (rev m)))"
    by (simp add: list_all_iff) (meson set_takeWhileD)
  from 1 2 have "b = takeWhile js_space b @ js_trim b @ rev (takeWhile js_space (rev m))"
    by simp
  with 3 4 show ?thesis by blast
qed

lemma js_trim_ends:
  assumes "js_trim b \<noteq> []"
  shows "\<not> js_space (hd (js_trim b)) \<and> \<not> js_space (last (js_trim b))"
proof -
  define m where "m = dropWhile js_space b"
  define r where "r = dropWhile js_space (rev m)"
  have t: "js_trim b = rev r" by (simp add: js_trim_def m_def r_def)
  with assms have rne: "r \<noteq> []" by simp
  then have l: "\<not> js_space (hd r)" unfolding r_def by (metis hd_dropWhile)
  have "suffix r (rev m)" unfolding r_def by (rule suffix_dropWhile)
  then obtain z where z: "rev m = z @ r" by (auto simp: suffix_def)
  then have "m = rev r @ rev z" by (metis rev_append rev_rev_ident)
  with rne have "hd m = hd (rev r)" by simp
  moreover have "m \<noteq> []" using z rne by auto
  then have "\<not> js_space (hd m)" unfolding m_def by (metis hd_dropWhile)
  ultimately have "\<not> js_space (hd (rev r))" by simp
  moreover from rne l have "\<not> js_space (last (rev r))" by (simp add: last_rev)
  ultimately show ?thesis by (simp add: t)
qed

text \<open>
  C3. On a list request without unknown keys whose page and \<^verbatim>\<open>perPage\<close> are absent or in
  order: without a \<^verbatim>\<open>borough\<close> the repository is called with no filter; a \<^verbatim>\<open>borough\<close>
  string is trimmed, and it is refused with a message of its own when the trimmed
  string is empty, when it is longer than 50, and when it has a character that is no
  letter, white space, hyphen or apostrophe; otherwise the repository is called with
  the trimmed string as the filter. A \<^verbatim>\<open>borough\<close> that is no string is refused with a
  fourth message. A refusal is the status 400 and leaves the store untouched.
\<close>

theorem C3_borough_validation:
  assumes "fst ` set q \<subseteq> {''page'', ''perPage'', ''borough''}"
    and "map_of q ''page'' = None \<or> (\<exists>v. map_of q ''page'' = Some v \<and> page_accepted v)"
    and "map_of q ''perPage'' = None \<or> (\<exists>w. map_of q ''perPage'' = Some w \<and> perPage_accepted w)"
    and "p = number_or 1 (map_of q ''page'')" and "n = number_or 10 (map_of q ''perPage'')"
  shows
    "(map_of q ''borough'' = None \<longrightarrow>
        calls (snd (list_handler rx dev q s)) = calls s @ [GetAllRestaurants p n None])
   \<and> (\<forall>b. map_of q ''borough'' = Some (QStr b) \<longrightarrow>
        (js_trim b = [] \<longrightarrow>
           list_handler rx dev q s = (failure 400 ''Borough parameter cannot be empty'', s))
      \<and> (js_trim b \<noteq> [] \<and> length (js_trim b) > 50 \<longrightarrow>
           list_handler rx dev q s =
             (failure 400 ''Borough parameter cannot exceed 50 characters'', s))
      \<and> (js_trim b \<noteq> [] \<and> length (js_trim b) \<le> 50 \<and>
           \<not> (\<forall>c \<in> set (js_trim b). is_letter c \<or> js_space c \<or> c = CHR ''-'' \<or> c = CHR 0x27) \<longrightarrow>
           list_handler rx dev q s =
             (failure 400
                ''Borough parameter can only contain letters, spaces, hyphens, and apostrophes'', s))
      \<and> (js_trim b \<noteq> [] \<and> length (js_trim b) \<le> 50 \<and>
           (\<forall>c \<in> set (js_trim b). is_letter c \<or> js_space c \<or> c = CHR ''-'' \<or> c = CHR 0x27) \<longrightarrow>
           calls (snd (list_handler rx dev q s)) =
             calls s @ [GetAllRestaurants p n (Some (js_trim b))]))
   \<and> (\<forall>v. map_of q ''borough'' = Some v \<and> (\<forall>b. v \<noteq> QStr b) \<longrightarrow>
        list_handler rx dev q s = (failure 400 ''Borough parameter must be a string'', s))
   \<and> distinct [''Borough parameter cannot be empty'',
                ''Borough parameter cannot exceed 50 characters'',
                ''Borough parameter can only contain letters, spaces, hyphens, and apostrophes'',
                ''Borough parameter must be a string'']"
proof -
  note ex = extraParamKeys_Nil[OF assms(1)]
  have vp: "validate_page (map_of q ''page'') = Inr p"
    using validate_page_Inr[OF assms(2)] assms(4) by simp
  have vn: "validate_perPage (map_of q ''perPage'') = Inr n"
    using validate_perPage_Inr[OF assms(3)] assms(5) by simp
  note err = list_handler_borough_error[OF ex vp vn]
  note ok = list_handler_valid_calls[OF ex vp vn]
  have chars: "borough_chars_only t \<longleftrightarrow>
      t \<noteq> [] \<and> (\<forall>c \<in> set t. is_letter c \<or> js_space c \<or> c = CHR ''-'' \<or> c = CHR 0x27)" for t
    by (simp add: borough_chars_only_def borough_char_def list_all_iff)
  have a: "calls (snd (list_handler rx dev q s)) = calls s @ [GetAllRestaurants p n None]"
    if "map_of q ''borough'' = None"
    using that by (subst ok[of None]) (simp_all add: validate_borough_def log_call_def)
  have b1: "list_handler rx dev q s = (failure 400 ''Borough parameter cannot be empty'', s)"
    if "map_of q ''borough'' = Some (QStr b)" "js_trim b = []" for b
    using that by (intro err) (simp add: validate_borough_def)
  have b2: "list_handler rx dev q s =
             (failure 400 ''Borough parameter cannot exceed 50 characters'', s)"
    if "map_of q ''borough'' = Some (QStr b)" "js_trim b \<noteq> []" "length (js_trim b) > 50" for b
    using that by (intro err) (simp add: validate_borough_def)
  have b3: "list_handler rx dev q s =
             (failure 400
                ''Borough parameter can only contain letters, spaces, hyphens, and apostrophes'', s)"
    if "map_of q ''borough'' = Some (QStr b)" "js_trim b \<noteq> []" "length (js_trim b) \<le> 50"
      "\<not> (\<forall>c \<in> set (js_trim b). is_letter c \<or> js_space c \<or> c = CHR ''-'' \<or> c = CHR 0x27)" for b
    using that by (intro err) (simp add: validate_borough_def chars)
  have b4: "calls (snd (list_handler rx dev q s)) =
             calls s @ [GetAllRestaurants p n (Some (js_trim b))]"
    if "map_of q ''borough'' = Some (QStr b)" "js_trim b \<noteq> []" "length (js_trim b) \<le> 50"
      "\<forall>c \<in> set (js_trim b). is_letter c \<or> js_space c \<or> c = CHR ''-'' \<or> c = CHR 0x27" for b
    using that
    by (subst ok[of "Some (js_trim b)"]) (simp_all add: validate_borough_def chars log_call_def)
  have c: "list_handler rx dev q s = (failure 400 ''Borough parameter must be a string'', s)"
    if "map_of q ''borough'' = Some v" "\<forall>b. v \<noteq> QStr b" for v
    using that by (intro err) (cases v; simp add: validate_borough_def)
  have d: "distinct [''Borough parameter cannot be empty'',
                ''Borough parameter cannot exceed 50 characters'',
                ''Borough parameter can only contain letters, spaces, hyphens, and apostrophes'',
                ''Borough parameter must be a string'']"
    by simp
  from a b1 b2 b3 b4 c d show ?thesis by blast
qed

text \<open>
  The requests with the borough \<^verbatim>\<open>" Queens "\<close>, with a blank one, with one of 51
  letters, with \<^verbatim>\<open>Queens2\<close>, with the array \<^verbatim>\<open>borough[]=Queens\<close>, and without one.
\<close>

theorem C3_borough_validation_witness:
  "calls (snd (list_handler literal_search False [(''borough'', QStr '' Queens '')] sample_store)) =
     [GetAllRestaurants 1 10 (Some ''Queens'')]
   \<and> list_handler literal_search False [(''borough'', QStr ''  '')] sample_store =
     (failure 400 ''Borough parameter cannot be empty'', sample_store)
   \<and> list_handler literal_search False
       [(''borough'', QStr ''abcdefghijabcdefghijabcdefghijabcdefghijabcdefghijk'')] sample_store =
     (failure 400 ''Borough parameter cannot exceed 50 characters'', sample_store)
   \<and> list_handler literal_search False [(''borough'', QStr ''Queens2'')] sample_store =
     (failure 400
        ''Borough parameter can only contain letters, spaces, hyphens, and apostrophes'',
      sample_store)
   \<and> list_handler literal_search False [(''borough'', QArr [QStr ''Queens''])] sample_store =
     (failure 400 ''Borough parameter must be a string'', sample_store)
   \<and> calls (snd (list_handler literal_search False [] sample_store)) =
     [GetAllRestaurants 1 10 None]"
proof -
  have t: "js_trim '' Queens '' = ''Queens''" "js_trim ''  '' = []"
    "js_trim ''abcdefghijabcdefghijabcdefghijabcdefghijabcdefghijk'' =
       ''abcdefghijabcdefghijabcdefghijabcdefghijabcdefghijk''"
    "js_trim ''Queens2'' = ''Queens2''"
    by (simp_all add: js_trim_def js_space_def)
  have c0: "calls sample_store = []"
    by (simp add: sample_store_def)
  show ?thesis
    using
      C3_borough_validation [of "[(''borough'', QStr '' Queens '')]" 1 10
        literal_search False sample_store]
      C3_borough_validation [of "[(''borough'', QStr ''  '')]" 1 10
        literal_search False sample_store]
      C3_borough_validation
        [of "[(''borough'', QStr ''abcdefghijabcdefghijabcdefghijabcdefghijabcdefghijk'')]" 1 10
        literal_search False sample_store]
      C3_borough_validation [of "[(''borough'', QStr ''Queens2'')]" 1 10
        literal_search False sample_store]
      C3_borough_validation [of "[(''borough'', QArr [QStr ''Queens''])]" 1 10
        literal_search False sample_store]
      C3_borough_validation [of "[]" 1 10 literal_search False sample_store]
    by (simp add: t c0 number_or_def is_letter_def js_space_def)
qed

lemma validate_borough_nonempty:
  "validate_borough v = Inr (Some t) \<Longrightarrow> t \<noteq> []"
  by (auto simp: validate_borough_def Let_def split: option.splits qvalue.splits if_splits)

lemma validate_list_query_borough:
  "validate_list_query q = Inr (p, n, b) \<Longrightarrow> validate_borough (map_of q ''borough'') = Inr b"
  by (auto simp: validate_list_query_def split: sum.splits)

lemma response_field_list_success:
  "response_field ''data'' (list_success p n b data) = Some (JArr (map JDoc data))"
  "response_field ''pagination'' (list_success p n b data) =
     Some (JObj [(''page'', JNum p), (''perPage'', JNum n),
                 (''totalReturned'', JNum (int (length data))),
                 (''hasMore'', JBool (int (length data) = n))])"
  "response_field ''filter'' (list_success p n b data) = Some (filter_json b)"
  "response_field ''query'' (list_success p n b data) =
     Some (JObj [(''page'', JNum p), (''perPage'', JNum n), (''borough'', borough_json b)])"
  by (simp_all add: response_field_def list_success_def Let_def)

text \<open>
  C4 as the code has it. Every answer 200 of the list route comes from a query that
  validated to a page, a \<^verbatim>\<open>perPage\<close> and a filter and from the list the repository
  returned for them; \<^verbatim>\<open>pagination\<close> holds that page and \<^verbatim>\<open>perPage\<close>, the length of the
  list as \<^verbatim>\<open>totalReturned\<close>, and \<^verbatim>\<open>hasMore\<close>, true exactly when that length is
  \<^verbatim>\<open>perPage\<close>; \<^verbatim>\<open>filter\<close> is the object with the applied borough when there is a
  filter and is \<^verbatim>\<open>null\<close>, not absent, when there is none.
\<close>

theorem C4_list_success_envelope:
  assumes "list_handler rx dev q s = (r, s')" and "status r = 200"
  shows "\<exists>page perPage b data.
      validate_list_query q = Inr (page, perPage, b)
    \<and> getAllRestaurants rx page perPage b s = (Inr data, s')
    \<and> response_field ''data'' r = Some (JArr (map JDoc data))
    \<and> response_field ''pagination'' r =
        Some (JObj [(''page'', JNum page), (''perPage'', JNum perPage),
                    (''totalReturned'', JNum (int (length data))),
                    (''hasMore'', JBool (int (length data) = perPage))])
    \<and> response_field ''filter'' r =
        Some (case b of None \<Rightarrow> JNull | Some t \<Rightarrow> JObj [(''borough'', JStr t)])
    \<and> response_field ''query'' r =
        Some (JObj [(''page'', JNum page), (''perPage'', JNum perPage),
                    (''borough'', case b of None \<Rightarrow> JNull | Some t \<Rightarrow> JStr t)])"
proof (cases "validate_list_query q")
  case (Inl a)
  with assms show ?thesis
    by (cases a) (auto simp: list_handler_def failure_def server_error_def)
next
  case (Inr v)
  obtain page perPage b where v: "v = (page, perPage, b)" by (cases v)
  obtain res s1 where g: "getAllRestaurants rx page perPage b s = (res, s1)"
    by (cases "getAllRestaurants rx page perPage b s")
  show ?thesis
  proof (cases res)
    case (Inl e)
    with assms Inr v g show ?thesis by (auto simp: list_handler_def server_error_def)
  next
    case (Inr data)
    from assms(1) \<open>validate_list_query q = Inr v\<close> v g Inr
    have r: "r = list_success page perPage b data" and s1: "s1 = s'"
      by (simp_all add: list_handler_def)
    have "filter_json b = (case b of None \<Rightarrow> JNull | Some t \<Rightarrow> JObj [(''borough'', JStr t)])"
    proof (cases b)
      case None
      then show ?thesis by (simp add: filter_json_def)
    next
      case (Some t)
      with validate_list_query_borough[of q page perPage b] \<open>validate_list_query q = Inr v\<close> v
      have "t \<noteq> []" by (auto dest: validate_borough_nonempty)
      with Some show ?thesis by (simp add: filter_json_def)
    qed
    with \<open>validate_list_query q = Inr v\<close> v g Inr r s1 show ?thesis
      by (simp add: response_field_list_success borough_json_def)
  qed
qed

text \<open>
  C4 as stated fails: the answer to the request without parameters has the key
  \<^verbatim>\<open>filter\<close>, with the value \<^verbatim>\<open>null\<close>.
\<close>

theorem C4_filter_null_counterexample:
  "status (fst (list_handler literal_search False [] empty_store)) = 200
   \<and> response_field ''filter'' (fst (list_handler literal_search False [] empty_store)) = Some JNull"
  by (simp add: list_handler_def validate_list_query_def validate_extra_def extraParamKeys_def
      validate_page_def validate_perPage_def validate_borough_def getAllRestaurants_def
      Restaurant_find_def empty_store_def log_call_def list_success_def response_field_def
      filter_json_def)

lemma manhattan_valid:
  "validate_list_query manhattan_query = Inr (1, 5, Some ''Manhattan'')"
  by (simp add: manhattan_query_def validate_list_query_def validate_extra_def extraParamKeys_def
      validate_page_def validate_perPage_def validate_borough_def digits_only_def is_digit_def
      parseInt10_def digit_val_def js_trim_def js_space_def borough_chars_only_def
      borough_char_def is_letter_def)

lemma manhattan_found:
  "getAllRestaurants literal_search 1 5 (Some ''Manhattan'') sample_store =
     (Inr [doc_b, doc_a], log_call (GetAllRestaurants 1 5 (Some ''Manhattan'')) sample_store)"
  by code_simp

text \<open>
  The request \<^verbatim>\<open>?borough=Manhattan&page=1&perPage=5\<close> on the three sample documents,
  two of them of Manhattan.
\<close>

theorem C4_list_success_witness:
  "status (fst (list_handler literal_search False manhattan_query sample_store)) = 200
   \<and> response_field ''pagination''
         (fst (list_handler literal_search False manhattan_query sample_store)) =
       Some (JObj [(''page'', JNum 1), (''perPage'', JNum 5), (''totalReturned'', JNum 2),
                   (''hasMore'', JBool False)])
   \<and> response_field ''filter''
         (fst (list_handler literal_search False manhattan_query sample_store)) =
       Some (JObj [(''borough'', JStr ''Manhattan'')])"
proof -
  have h: "list_handler literal_search False manhattan_query sample_store =
      (list_success 1 5 (Some ''Manhattan'') [doc_b, doc_a],
       log_call (GetAllRestaurants 1 5 (Some ''Manhattan'')) sample_store)"
    by (simp add: list_handler_def manhattan_valid manhattan_found)
  have st: "status (list_success 1 5 (Some ''Manhattan'') [doc_b, doc_a]) = 200"
    by (simp add: list_success_def)
  from C4_list_success_envelope [OF h st] show ?thesis
    by (auto simp: h st manhattan_valid manhattan_found)
qed

section \<open>Properties of the repository\<close>

lemma letter_literal: "is_letter c \<Longrightarrow> caseless_literal c"
  unfolding is_letter_def caseless_literal_def regex_special_def
  by (simp, (elim disjE; simp))

lemma space_literal: "js_space c \<Longrightarrow> caseless_literal c"
  unfolding js_space_def caseless_literal_def regex_special_def
  by (simp, (elim disjE; simp))

lemma borough_char_literal: "borough_char c \<Longrightarrow> caseless_literal c"
  unfolding borough_char_def
proof (elim disjE)
  assume "is_letter c" then show ?thesis by (rule letter_literal)
next
  assume "js_space c" then show ?thesis by (rule space_literal)
next
  assume "c = CHR ''-''" then show ?thesis
    by (simp add: caseless_literal_def regex_special_def)
next
  assume "c = CHR 0x27" then show ?thesis
    by (simp add: caseless_literal_def regex_special_def)
qed

lemma validate_borough_accepts:
  assumes "validate_borough (Some (QStr raw)) = Inr (Some b)"
  shows "b = js_trim raw" "b \<noteq> []" "length b \<le> 50" "list_all borough_char b"
  using assms
  by (auto simp: validate_borough_def Let_def borough_chars_only_def split: if_splits)

lemma literal_engine_query:
  assumes "literal_engine rx" "list_all caseless_literal b"
  shows "borough_query rx b d = borough_contains b d"
proof -
  from assms have rx: "rx b t = contains_ci t b" for t
    by (simp add: literal_engine_def)
  show ?thesis
    by (auto simp: borough_query_def borough_contains_def regex_field_def address_path_def rx
        split: option.splits)
qed

lemma getAllRestaurants_page:
  assumes "fault s = None" "1 \<le> page" "1 \<le> perPage" "perPage \<le> 100"
  shows "getAllRestaurants rx page perPage (Some b) s =
      (Inr (take (nat perPage) (drop (nat ((page - 1) * perPage))
              (sort_key oid (filter (if b = [] then (\<lambda>d. True) else borough_query rx b) (docs s))))),
       log_call (GetAllRestaurants page perPage (Some b)) s)"
  using assms
  by (simp add: getAllRestaurants_def Restaurant_find_def log_call_def Let_def)

lemma sorted_page:
  "sorted (map oid (take n (drop k (sort_key oid xs))))"
proof -
  have "sorted (map oid (sort_key oid xs))" by (rule sorted_sort_key)
  then have "sorted (drop k (map oid (sort_key oid xs)))" by (rule sorted_wrt_drop)
  then have "sorted (take n (drop k (map oid (sort_key oid xs))))" by (rule sorted_wrt_take)
  then show ?thesis by (simp add: take_map drop_map)
qed

text \<open>
  C5. Let the storage engine search a pattern of literal characters for what it is,
  letter case ignored, and let it answer. For a filter the handler's borough check
  let through and a page and \<^verbatim>\<open>perPage\<close> in their ranges, the repository returns the
  documents whose top-level borough or nested \<^verbatim>\<open>address.borough\<close> contains the filter
  text, case ignored, in ascending order of identifier, without the first
  \<^verbatim>\<open>(page - 1) * perPage\<close> of them and \<^verbatim>\<open>perPage\<close> of them at most. The handler's check
  is what makes the filter a literal pattern: none of its characters is special in a
  regular expression.
\<close>

theorem C5_borough_filter_page:
  assumes "literal_engine rx" and "fault s = None"
    and "validate_borough (Some (QStr raw)) = Inr (Some b)"
    and "1 \<le> page" and "page \<le> 10000" and "1 \<le> perPage" and "perPage \<le> 100"
  shows "fst (getAllRestaurants rx page perPage (Some b) s) =
           Inr (take (nat perPage) (drop (nat ((page - 1) * perPage))
                  (sort_key oid (filter (borough_contains b) (docs s)))))
      \<and> (\<forall>rs. fst (getAllRestaurants rx page perPage (Some b) s) = Inr rs \<longrightarrow>
             sorted (map oid rs) \<and> length rs \<le> nat perPage \<and>
             set rs \<subseteq> {d \<in> set (docs s). borough_contains b d})"
proof -
  note acc = validate_borough_accepts[OF assms(3)]
  from acc(4) have lit: "list_all caseless_literal b"
    by (simp add: list_all_iff borough_char_literal)
  have q: "filter (if b = [] then (\<lambda>d. True) else borough_query rx b) (docs s) =
      filter (borough_contains b) (docs s)"
    using acc(2) literal_engine_query[OF assms(1) lit] by (simp cong: filter_cong)
  define rs where "rs = take (nat perPage) (drop (nat ((page - 1) * perPage))
                (sort_key oid (filter (borough_contains b) (docs s))))"
  have 1: "fst (getAllRestaurants rx page perPage (Some b) s) = Inr rs"
    by (simp add: getAllRestaurants_page[OF assms(2,4,6,7)] q rs_def)
  have 2: "sorted (map oid rs)" unfolding rs_def by (rule sorted_page)
  have 3: "length rs \<le> nat perPage" by (simp add: rs_def)
  have "set rs \<subseteq> set (sort_key oid (filter (borough_contains b) (docs s)))"
    unfolding rs_def by (meson set_take_subset set_drop_subset subset_trans)
  then have 4: "set rs \<subseteq> {d \<in> set (docs s). borough_contains b d}" by auto
  from 1 2 3 4 show ?thesis unfolding rs_def by simp
qed

lemma contains_ci_eval:
  "contains_ci ''Manhattan'' ''hatt''" "contains_ci ''MANHATTAN'' ''hatt''"
  "\<not> contains_ci ''Queens'' ''hatt''"
  by (code_simp, code_simp, code_simp)

text \<open>
  The filter \<^verbatim>\<open>hatt\<close> on the three sample documents: the two of Manhattan, the one
  with the smaller identifier first; the second page of size one holds the other.
\<close>

theorem C5_borough_filter_page_witness:
  "fst (getAllRestaurants literal_search 1 5 (Some ''hatt'') sample_store) = Inr [doc_b, doc_a]
   \<and> fst (getAllRestaurants literal_search 2 1 (Some ''hatt'') sample_store) = Inr [doc_a]"
proof -
  have e: "literal_engine literal_search"
    by (simp add: literal_engine_def literal_search_def)
  have f: "fault sample_store = None"
    by (simp add: sample_store_def)
  have v: "validate_borough (Some (QStr '' hatt'')) = Inr (Some ''hatt'')"
    by (simp add: validate_borough_def js_trim_def js_space_def borough_chars_only_def
        borough_char_def is_letter_def)
  have m: "filter (borough_contains ''hatt'') (docs sample_store) = [doc_a, doc_b]"
    by (simp add: sample_store_def doc_a_def doc_b_def doc_c_def borough_contains_def
        sample_fields_def sample_address_def contains_ci_eval)
  have r1: "take (nat 5) (drop (nat ((1 - 1) * 5)) (sort_key oid [doc_a, doc_b])) = [doc_b, doc_a]"
    by (simp add: doc_a_def doc_b_def)
  have r2: "take (nat 1) (drop (nat ((2 - 1) * 1)) (sort_key oid [doc_a, doc_b])) = [doc_a]"
    by (simp add: doc_a_def doc_b_def)
  have p1: "(1::int) \<le> 1" "(1::int) \<le> 10000" "(1::int) \<le> 5" "(5::int) \<le> 100"
    by simp_all
  have p2: "(1::int) \<le> 2" "(2::int) \<le> 10000" "(1::int) \<le> 1" "(1::int) \<le> 100"
    by simp_all
  note a1 = C5_borough_filter_page [OF e f v p1, THEN conjunct1]
  note a2 = C5_borough_filter_page [OF e f v p2, THEN conjunct1]
  show ?thesis
    unfolding a1 a2 m r1 r2 by (rule conjI; rule refl)
qed

section \<open>Properties of the item routes\<close>

lemma valid_id_nonempty: "valid_id_format ident \<Longrightarrow> ident \<noteq> []"
  by (auto simp: valid_id_format_def)

lemma valid_id_cast: "valid_id_format ident \<longleftrightarrow> (\<exists>k. cast_objectid ident = Some k)"
  by (simp add: valid_id_format_def cast_objectid_def)

lemma find_None_absent: "find (\<lambda>d. oid d = k) ds = None \<longleftrightarrow> k \<notin> oid ` set ds"
  by (auto simp: find_None_iff)

lemma remove_first_absent: "k \<notin> oid ` set ds \<Longrightarrow> remove_first (\<lambda>d. oid d = k) ds = ds"
  by (induction ds) auto

lemma remove_first_distinct:
  "distinct (map oid ds) \<Longrightarrow> remove_first (\<lambda>d. oid d = k) ds = filter (\<lambda>d. oid d \<noteq> k) ds"
proof (induction ds)
  case Nil
  then show ?case by simp
next
  case (Cons d ds)
  show ?case
  proof (cases "oid d = k")
    case True
    with Cons.prems have "k \<notin> oid ` set ds" by auto
    then have "filter (\<lambda>d. oid d \<noteq> k) ds = ds" by (auto simp: filter_id_conv)
    with True show ?thesis by simp
  next
    case False
    with Cons show ?thesis by simp
  qed
qed

lemma not_found_includes: "js_includes ''Restaurant not found'' ''not found''"
  by (simp add: js_includes_def sublist_code prefix_code)

lemma deleteRestaurantById_present:
  assumes "ident \<noteq> []" "cast_objectid ident = Some k" "fault s = None"
    "find (\<lambda>d. oid d = k) (docs s) = Some d"
  shows "deleteRestaurantById ident s =
     (Inr d, (log_call (DeleteRestaurantById ident) s)
               \<lparr>docs := remove_first (\<lambda>d. oid d = k) (docs s)\<rparr>)"
  using assms
  by (simp add: deleteRestaurantById_def Restaurant_findByIdAndDelete_def log_call_def)

lemma deleteRestaurantById_absent:
  assumes "ident \<noteq> []" "cast_objectid ident = Some k" "fault s = None"
    "k \<notin> oid ` set (docs s)"
  shows "deleteRestaurantById ident s =
     (Inl (new_Error ''Restaurant not found''), log_call (DeleteRestaurantById ident) s)"
proof -
  from assms(4) have "find (\<lambda>d. oid d = k) (docs s) = None" by (simp add: find_None_absent)
  with assms show ?thesis
    by (simp add: deleteRestaurantById_def Restaurant_findByIdAndDelete_def log_call_def
        remove_first_absent deleteRestaurantById_catch_def new_Error_def)
qed

lemma delete_handler_absent:
  assumes "valid_id_format ident" "cast_objectid ident = Some k" "fault s = None"
    "k \<notin> oid ` set (docs s)"
  shows "delete_handler dev ident s =
     (failure 404 (''Restaurant with ID '' @ ident @ '' not found''),
      log_call (DeleteRestaurantById ident) s)"
  using assms(1) not_found_includes
  by (simp add: delete_handler_def delete_catch_def not_found_response_def new_Error_def
      deleteRestaurantById_absent[OF valid_id_nonempty[OF assms(1)] assms(2,3,4)])

lemma delete_times_absent:
  assumes "valid_id_format ident" "cast_objectid ident = Some k"
  shows "fault s = None \<Longrightarrow> k \<notin> oid ` set (docs s) \<Longrightarrow>
     fst (delete_times n dev ident s) =
       replicate n (failure 404 (''Restaurant with ID '' @ ident @ '' not found''))"
proof (induction n arbitrary: s)
  case 0
  then show ?case by simp
next
  case (Suc n)
  let ?s1 = "log_call (DeleteRestaurantById ident) s"
  have "fault ?s1 = None" "k \<notin> oid ` set (docs ?s1)"
    using Suc.prems by (simp_all add: log_call_def)
  from Suc.IH[OF this] delete_handler_absent[OF assms Suc.prems]
  show ?case by (simp add: split_beta)
qed

text \<open>
  C7. Let the storage engine answer and the identifiers of the collection be unique.
  A DELETE with a well-formed id that the collection holds is answered 204 without a
  body and leaves the collection without that document; on every later state without
  the document in which the engine answers, the same DELETE is answered 404 with a
  message that has the id as it was sent, and changes nothing; so the same DELETE sent
  once more any number of times in a row is answered 404 each time.
\<close>

theorem C7_delete_then_not_found:
  assumes "valid_id_format ident" and "cast_objectid ident = Some k"
    and "fault s = None" and "distinct (map oid (docs s))" and "k \<in> oid ` set (docs s)"
  shows "\<exists>s1. delete_handler dev ident s = (\<lparr>status = 204, body = None\<rparr>, s1)
      \<and> docs s1 = filter (\<lambda>d. oid d \<noteq> k) (docs s)
      \<and> k \<notin> oid ` set (docs s1)
      \<and> fault s1 = None
      \<and> (\<forall>s2. fault s2 = None \<and> k \<notin> oid ` set (docs s2) \<longrightarrow>
            fst (delete_handler dev ident s2) =
              failure 404 (''Restaurant with ID '' @ ident @ '' not found'')
          \<and> docs (snd (delete_handler dev ident s2)) = docs s2
          \<and> fault (snd (delete_handler dev ident s2)) = None)
      \<and> (\<forall>n. fst (delete_times (Suc n) dev ident s) =
            \<lparr>status = 204, body = None\<rparr> #
            replicate n (failure 404 (''Restaurant with ID '' @ ident @ '' not found'')))"
proof -
  from assms(5) obtain d where d: "find (\<lambda>d. oid d = k) (docs s) = Some d"
    by (cases "find (\<lambda>d. oid d = k) (docs s)") (auto simp: find_None_absent)
  define s1 where "s1 = (log_call (DeleteRestaurantById ident) s)
               \<lparr>docs := remove_first (\<lambda>d. oid d = k) (docs s)\<rparr>"
  have h: "delete_handler dev ident s = (\<lparr>status = 204, body = None\<rparr>, s1)"
    using assms(1)
    by (simp add: delete_handler_def s1_def
        deleteRestaurantById_present[OF valid_id_nonempty[OF assms(1)] assms(2,3) d])
  have dd: "docs s1 = filter (\<lambda>d. oid d \<noteq> k) (docs s)"
    by (simp add: s1_def remove_first_distinct[OF assms(4)])
  then have ab: "k \<notin> oid ` set (docs s1)" by auto
  have fl: "fault s1 = None" using assms(3) by (simp add: s1_def log_call_def)
  have again: "fst (delete_handler dev ident s2) =
              failure 404 (''Restaurant with ID '' @ ident @ '' not found'')
          \<and> docs (snd (delete_handler dev ident s2)) = docs s2
          \<and> fault (snd (delete_handler dev ident s2)) = None"
    if "fault s2 = None" "k \<notin> oid ` set (docs s2)" for s2
    using that by (simp add: delete_handler_absent[OF assms(1,2) that] log_call_def)
  have rep: "fst (delete_times (Suc n) dev ident s) =
            \<lparr>status = 204, body = None\<rparr> #
            replicate n (failure 404 (''Restaurant with ID '' @ ident @ '' not found''))" for n
    using delete_times_absent[OF assms(1,2) fl ab, of n dev] h by (simp add: split_beta)
  from h dd ab fl again rep show ?thesis by blast
qed

text \<open>Three DELETE requests for the one document of a collection.\<close>

theorem C7_delete_then_not_found_witness:
  "fst (delete_times 3 False sample_id one_doc_store) =
     [\<lparr>status = 204, body = None\<rparr>,
      failure 404 ''Restaurant with ID 507f1f77bcf86cd799439011 not found'',
      failure 404 ''Restaurant with ID 507f1f77bcf86cd799439011 not found'']
   \<and> docs (snd (delete_handler False sample_id one_doc_store)) = []"
proof -
  have c: "cast_objectid sample_id = Some 24912482966938930280208240657"
    by (simp add: cast_objectid_def sample_id_def is_hex_def hex_val_def is_digit_def)
  have v: "valid_id_format sample_id"
    by (simp add: valid_id_format_def sample_id_def is_hex_def)
  have f: "fault one_doc_store = None"
    and u: "distinct (map oid (docs one_doc_store))"
    and m: "24912482966938930280208240657 \<in> oid ` set (docs one_doc_store)"
    by (simp_all add: one_doc_store_def)
  from C7_delete_then_not_found [OF v c f u m, of False]
  obtain s1 where h: "delete_handler False sample_id one_doc_store =
        (\<lparr>status = 204, body = None\<rparr>, s1)"
    and d: "docs s1 =
        filter (\<lambda>d. oid d \<noteq> 24912482966938930280208240657) (docs one_doc_store)"
    and r: "\<forall>n. fst (delete_times (Suc n) False sample_id one_doc_store) =
        \<lparr>status = 204, body = None\<rparr> #
        replicate n (failure 404 (''Restaurant with ID '' @ sample_id @ '' not found''))"
    by blast
  have n: "Suc 2 = 3" by simp
  from r have "fst (delete_times (Suc 2) False sample_id one_doc_store) =
        \<lparr>status = 204, body = None\<rparr> #
        replicate 2 (failure 404 (''Restaurant with ID '' @ sample_id @ '' not found''))"
    by (rule spec)
  then have a: "fst (delete_times 3 False sample_id one_doc_store) =
        [\<lparr>status = 204, body = None\<rparr>,
         failure 404 ''Restaurant with ID 507f1f77bcf86cd799439011 not found'',
         failure 404 ''Restaurant with ID 507f1f77bcf86cd799439011 not found'']"
    unfolding n by (simp add: numeral_2_eq_2 sample_id_def)
  from h d have b: "docs (snd (delete_handler False sample_id one_doc_store)) = []"
    by (simp add: one_doc_store_def)
  from a b show ?thesis by (rule conjI)
qed

text \<open>
  C6. A GET, PUT or DELETE on an item whose id is not 24 hexadecimal digits is
  answered 400 with the message "Invalid restaurant ID format", and the store, with
  its record of repository calls, is untouched.
\<close>

theorem C6_malformed_id_rejected:
  assumes "\<not> (length ident = 24 \<and> (\<forall>c \<in> set ident. c \<in> set ''0123456789abcdefABCDEF''))"
  shows "get_handler dev ident s = (failure 400 ''Invalid restaurant ID format'', s)
       \<and> put_handler dev ident b s = (failure 400 ''Invalid restaurant ID format'', s)
       \<and> delete_handler dev ident s = (failure 400 ''Invalid restaurant ID format'', s)"
proof -
  from assms have "\<not> valid_id_format ident"
    unfolding valid_id_format_def is_hex_def list_all_iff by blast
  then show ?thesis
    by (simp add: get_handler_def put_handler_def delete_handler_def)
qed

text \<open>The id \<^verbatim>\<open>not-a-valid-id\<close> on the three routes.\<close>

theorem C6_malformed_id_witness:
  "get_handler False ''not-a-valid-id'' sample_store =
     (failure 400 ''Invalid restaurant ID format'', sample_store)
   \<and> put_handler False ''not-a-valid-id'' (Some sample_body) sample_store =
     (failure 400 ''Invalid restaurant ID format'', sample_store)
   \<and> delete_handler False ''not-a-valid-id'' sample_store =
     (failure 400 ''Invalid restaurant ID format'', sample_store)
   \<and> status (failure 400 ''Invalid restaurant ID format'') = 400"
  using C6_malformed_id_rejected [of "''not-a-valid-id''" False sample_store "Some sample_body"]
  by (simp add: failure_def)

text \<open>
  C9. A POST, and a PUT with a well-formed id, whose body is absent or has no key is
  answered 400 with the message that a body is required, and the store, with its
  record of repository calls, is untouched.
\<close>

theorem C9_missing_body_rejected:
  assumes "b = None \<or> (\<exists>d. b = Some d \<and> body_key_count d = 0)"
    and "valid_id_format ident"
  shows "post_handler dev b s =
           (failure 400 ''Request body is required to create a restaurant'', s)
       \<and> put_handler dev ident b s =
           (failure 400 ''Request body is required to update a restaurant'', s)"
proof -
  from assms(1) have "body_missing b"
    by (auto simp: body_missing_def)
  with assms(2) show ?thesis
    by (simp add: post_handler_def put_handler_def)
qed

text \<open>The body \<^verbatim>\<open>{}\<close> and no body, on a collection of one document.\<close>

theorem C9_missing_body_witness:
  "post_handler False (Some empty_body) one_doc_store =
     (failure 400 ''Request body is required to create a restaurant'', one_doc_store)
   \<and> put_handler False sample_id (Some empty_body) one_doc_store =
     (failure 400 ''Request body is required to update a restaurant'', one_doc_store)
   \<and> put_handler False sample_id None one_doc_store =
     (failure 400 ''Request body is required to update a restaurant'', one_doc_store)"
proof -
  have e: "body_key_count empty_body = 0"
    by (simp add: body_key_count_def empty_body_def empty_fields_def count_some_def)
  have v: "valid_id_format sample_id"
    by (simp add: valid_id_format_def sample_id_def is_hex_def)
  show ?thesis
    using C9_missing_body_rejected [of "Some empty_body" sample_id False one_doc_store]
      C9_missing_body_rejected [of None sample_id False one_doc_store] e v
    by simp
qed

text \<open>
  C8 fails on the code. A record whose one violation is the format of the phone
  number makes the repository throw a plain error with the message "Validation
  failed: ..."; neither \<^verbatim>\<open>validation\<close> nor \<^verbatim>\<open>required\<close> nor \<^verbatim>\<open>duplicate\<close> occurs
  in it and its name is not \<^verbatim>\<open>ValidationError\<close>, so the POST handler answers 500, and so
  does the PUT handler for a document that exists.
\<close>

theorem C8_validation_failure_answers_500:
  "fst (addNewRestaurant (Some bad_phone_body) empty_store) =
     Inl (new_Error ''Validation failed: Phone number must be in format (XXX) XXX-XXXX'')
   \<and> fst (post_handler False (Some bad_phone_body) empty_store) =
     \<lparr>status = 500,
      body = Some (JObj [(''success'', JBool False),
                         (''message'', JStr ''Internal server error while creating restaurant'')])\<rparr>
   \<and> fst (put_handler False sample_id (Some bad_phone_body) one_doc_store) =
     \<lparr>status = 500,
      body = Some (JObj [(''success'', JBool False),
                         (''message'', JStr ''Internal server error while updating restaurant'')])\<rparr>"
  by code_simp

lemma includes_wrapped: "js_includes m p \<Longrightarrow> js_includes (pre @ m) p"
  unfolding js_includes_def
  by (metis append_Nil2 sublist_in_append)

lemma status_simps:
  "status (failure c m) = c" "status (server_error dev m e) = 500"
  "status (not_found_response ident) = 404"
  by (simp_all add: failure_def server_error_def not_found_response_def)

lemma get_handler_fault:
  assumes "valid_id_format ident" "fault s = Some f" "err_name f \<noteq> ''CastError''"
    "js_includes (err_message f) ''not found''"
  shows "fst (get_handler dev ident s) = not_found_response ident"
proof -
  from assms(1) obtain k where k: "cast_objectid ident = Some k"
    by (auto simp: valid_id_cast)
  have t: "fst (getRestaurantById ident s) = Inl (getRestaurantById_catch f)"
    using assms(2) k valid_id_nonempty[OF assms(1)]
    by (simp add: getRestaurantById_def Restaurant_findById_def log_call_def)
  have "js_includes (err_message (getRestaurantById_catch f)) ''not found''"
    using assms(3,4)
    by (simp add: getRestaurantById_catch_def new_Error_def includes_wrapped not_found_includes del: append.simps)
  moreover from t obtain s' where
    "getRestaurantById ident s = (Inl (getRestaurantById_catch f), s')"
    by (cases "getRestaurantById ident s") auto
  ultimately show ?thesis
    using assms(1) by (simp add: get_handler_def get_catch_def)
qed

lemma delete_handler_fault:
  assumes "valid_id_format ident" "fault s = Some f" "err_name f \<noteq> ''CastError''"
    "js_includes (err_message f) ''not found''"
  shows "fst (delete_handler dev ident s) = not_found_response ident"
proof -
  from assms(1) obtain k where k: "cast_objectid ident = Some k"
    by (auto simp: valid_id_cast)
  have t: "fst (deleteRestaurantById ident s) = Inl (deleteRestaurantById_catch f)"
    using assms(2) k valid_id_nonempty[OF assms(1)]
    by (simp add: deleteRestaurantById_def Restaurant_findByIdAndDelete_def log_call_def)
  have "js_includes (err_message (deleteRestaurantById_catch f)) ''not found''"
    using assms(3,4)
    by (simp add: deleteRestaurantById_catch_def new_Error_def includes_wrapped not_found_includes del: append.simps)
  moreover from t obtain s' where
    "deleteRestaurantById ident s = (Inl (deleteRestaurantById_catch f), s')"
    by (cases "deleteRestaurantById ident s") auto
  ultimately show ?thesis
    using assms(1) by (simp add: delete_handler_def delete_catch_def)
qed

text \<open>
  C10. In the handlers of GET, PUT and DELETE on an item, an error of the repository
  whose message contains \<^verbatim>\<open>not found\<close> is answered 404 with the not-found envelope for
  the requested id; an error whose message does not is answered 500, except that
  the PUT handler answers 400 on its validation matches. Two errors with the same
  message get the same answer from the GET and DELETE handlers and the same decision
  about 404 from the PUT handler, whatever their name and code. Each handler passes
  every error of its repository call through this mapping. So a failure of the storage
  engine whose text has the words \<^verbatim>\<open>not found\<close>, which the repository wraps, is answered
  404 by the GET and DELETE handlers.
\<close>

theorem C10_not_found_decided_by_message:
  "(js_includes (err_message e) ''not found'' \<longrightarrow>
        get_catch dev ident e = failure 404 (''Restaurant with ID '' @ ident @ '' not found'')
      \<and> put_catch dev ident e = failure 404 (''Restaurant with ID '' @ ident @ '' not found'')
      \<and> delete_catch dev ident e = failure 404 (''Restaurant with ID '' @ ident @ '' not found''))
   \<and> (\<not> js_includes (err_message e) ''not found'' \<longrightarrow>
        status (get_catch dev ident e) = 500
      \<and> status (delete_catch dev ident e) = 500
      \<and> (status (put_catch dev ident e) = 500 \<or>
          status (put_catch dev ident e) = 400 \<and>
          (js_includes (err_message e) ''validation'' \<or>
           js_includes (err_message e) ''required'' \<or>
           err_name e = ''ValidationError'')))
   \<and> (err_message e' = err_message e \<longrightarrow>
        get_catch dev ident e' = get_catch dev ident e
      \<and> delete_catch dev ident e' = delete_catch dev ident e
      \<and> (status (put_catch dev ident e') = 404 \<longleftrightarrow> status (put_catch dev ident e) = 404))
   \<and> (valid_id_format ident \<longrightarrow>
        (\<forall>x s'. getRestaurantById ident s = (Inl x, s') \<longrightarrow>
           get_handler dev ident s = (get_catch dev ident x, s'))
      \<and> (\<forall>x s'. deleteRestaurantById ident s = (Inl x, s') \<longrightarrow>
           delete_handler dev ident s = (delete_catch dev ident x, s'))
      \<and> (\<forall>x s'. \<not> body_missing b \<and> updateRestaurantById b ident s = (Inl x, s') \<longrightarrow>
           put_handler dev ident b s = (put_catch dev ident x, s')))
   \<and> (valid_id_format ident \<and> fault s = Some f \<and> err_name f \<noteq> ''CastError'' \<and>
      js_includes (err_message f) ''not found'' \<longrightarrow>
        fst (get_handler dev ident s) =
          failure 404 (''Restaurant with ID '' @ ident @ '' not found'')
      \<and> fst (delete_handler dev ident s) =
          failure 404 (''Restaurant with ID '' @ ident @ '' not found''))"
proof -
  have 1: "js_includes (err_message e) ''not found'' \<longrightarrow>
        get_catch dev ident e = failure 404 (''Restaurant with ID '' @ ident @ '' not found'')
      \<and> put_catch dev ident e = failure 404 (''Restaurant with ID '' @ ident @ '' not found'')
      \<and> delete_catch dev ident e = failure 404 (''Restaurant with ID '' @ ident @ '' not found'')"
    by (simp add: get_catch_def put_catch_def delete_catch_def not_found_response_def)
  have 2: "\<not> js_includes (err_message e) ''not found'' \<longrightarrow>
        status (get_catch dev ident e) = 500
      \<and> status (delete_catch dev ident e) = 500
      \<and> (status (put_catch dev ident e) = 500 \<or>
          status (put_catch dev ident e) = 400 \<and>
          (js_includes (err_message e) ''validation'' \<or>
           js_includes (err_message e) ''required'' \<or>
           err_name e = ''ValidationError''))"
    by (simp add: get_catch_def put_catch_def delete_catch_def status_simps)
  have 3: "err_message e' = err_message e \<longrightarrow>
        get_catch dev ident e' = get_catch dev ident e
      \<and> delete_catch dev ident e' = delete_catch dev ident e
      \<and> (status (put_catch dev ident e') = 404 \<longleftrightarrow> status (put_catch dev ident e) = 404)"
    by (simp add: get_catch_def put_catch_def delete_catch_def status_simps server_error_def)
  have 4: "valid_id_format ident \<longrightarrow>
        (\<forall>x s'. getRestaurantById ident s = (Inl x, s') \<longrightarrow>
           get_handler dev ident s = (get_catch dev ident x, s'))
      \<and> (\<forall>x s'. deleteRestaurantById ident s = (Inl x, s') \<longrightarrow>
           delete_handler dev ident s = (delete_catch dev ident x, s'))
      \<and> (\<forall>x s'. \<not> body_missing b \<and> updateRestaurantById b ident s = (Inl x, s') \<longrightarrow>
           put_handler dev ident b s = (put_catch dev ident x, s'))"
    by (simp add: get_handler_def delete_handler_def put_handler_def)
  have 5: "valid_id_format ident \<and> fault s = Some f \<and> err_name f \<noteq> ''CastError'' \<and>
      js_includes (err_message f) ''not found'' \<longrightarrow>
        fst (get_handler dev ident s) =
          failure 404 (''Restaurant with ID '' @ ident @ '' not found'')
      \<and> fst (delete_handler dev ident s) =
          failure 404 (''Restaurant with ID '' @ ident @ '' not found'')"
    using get_handler_fault[of ident s f dev] delete_handler_fault[of ident s f dev]
    by (simp add: not_found_response_def)
  from 1 2 3 4 5 show ?thesis by (intro conjI)
qed

text \<open>
  A storage engine that is down with the error "getaddrinfo: host not found": the
  GET and the DELETE of a well-formed id are answered 404.
\<close>

theorem C10_not_found_decided_by_message_witness:
  "fst (get_handler False sample_id down_store) =
     failure 404 ''Restaurant with ID 507f1f77bcf86cd799439011 not found''
   \<and> fst (delete_handler False sample_id down_store) =
     failure 404 ''Restaurant with ID 507f1f77bcf86cd799439011 not found''
   \<and> put_catch False sample_id host_not_found =
     failure 404 ''Restaurant with ID 507f1f77bcf86cd799439011 not found''"
proof -
  have v: "valid_id_format sample_id"
    by (simp add: valid_id_format_def sample_id_def is_hex_def)
  have f: "fault down_store = Some host_not_found"
    by (simp add: down_store_def)
  have n: "err_name host_not_found \<noteq> ''CastError''"
    by (simp add: host_not_found_def)
  have i: "js_includes (err_message host_not_found) ''not found''"
    by (simp add: host_not_found_def js_includes_def sublist_code prefix_code)
  show ?thesis
    using C10_not_found_decided_by_message
      [where e = host_not_found and e' = host_not_found and f = host_not_found
        and ident = sample_id and dev = False and s = down_store and b = None]
      v f n i
    by (simp add: sample_id_def)
qed

section \<open>An invariant of the collection\<close>

lemma fold_max_ge: "(a::int) \<le> fold max xs a \<and> (\<forall>x \<in> set xs. x \<le> fold max xs a)"
proof (induction xs arbitrary: a)
  case Nil
  then show ?case by simp
next
  case (Cons y ys)
  from Cons[of "max y a"] show ?case by auto
qed

lemma fresh_oid_new: "fresh_oid ds \<notin> oid ` set ds"
proof
  assume "fresh_oid ds \<in> oid ` set ds"
  then have "fresh_oid ds \<in> set (map oid ds)" by simp
  with fold_max_ge[of 0 "map oid ds"] have "fresh_oid ds \<le> fold max (map oid ds) 0" by blast
  then show False by (simp add: fresh_oid_def)
qed

lemma replace_first_ids:
  "oid y = k \<Longrightarrow> map oid (replace_first (\<lambda>d. oid d = k) y ds) = map oid ds"
  by (induction ds) auto

lemma docs_log_call: "docs (log_call c s) = docs s"
  by (simp add: log_call_def)

lemma save_unique:
  assumes "distinct (map oid (docs s))"
  shows "distinct (map oid (docs (snd (Restaurant_save data s))))"
  using assms fresh_oid_new[of "docs s"]
  by (auto simp: Restaurant_save_def Let_def split: option.splits)

lemma update_unique:
  assumes "distinct (map oid (docs s))"
  shows "distinct (map oid (docs (snd (Restaurant_findByIdAndUpdate ident data s))))"
  using assms
  by (auto simp: Restaurant_findByIdAndUpdate_def Let_def replace_first_ids split: option.splits)

lemma delete_unique:
  assumes "distinct (map oid (docs s))"
  shows "distinct (map oid (docs (snd (Restaurant_findByIdAndDelete ident s))))"
  using assms
  by (auto simp: Restaurant_findByIdAndDelete_def remove_first_distinct distinct_map_filter
      split: option.splits)

lemma addNewRestaurant_docs:
  "docs (snd (addNewRestaurant b s)) =
     (case b of None \<Rightarrow> docs s
      | Some d \<Rightarrow> docs (snd (Restaurant_save d (log_call AddNewRestaurant s))))"
  by (auto simp: addNewRestaurant_def Let_def docs_log_call split: option.splits prod.splits sum.splits)

lemma updateRestaurantById_docs:
  "docs (snd (updateRestaurantById b ident s)) =
     (case b of None \<Rightarrow> docs s
      | Some d \<Rightarrow>
          if ident = [] then docs s
          else docs (snd (Restaurant_findByIdAndUpdate ident d
                      (log_call (UpdateRestaurantById ident) s))))"
  by (auto simp: updateRestaurantById_def Let_def docs_log_call
      split: option.splits prod.splits sum.splits)

lemma deleteRestaurantById_docs:
  "docs (snd (deleteRestaurantById ident s)) =
     (if ident = [] then docs s
      else docs (snd (Restaurant_findByIdAndDelete ident
                  (log_call (DeleteRestaurantById ident) s))))"
  by (auto simp: deleteRestaurantById_def Let_def docs_log_call
      split: option.splits prod.splits sum.splits)

lemma getRestaurantById_docs: "docs (snd (getRestaurantById ident s)) = docs s"
  by (auto simp: getRestaurantById_def Let_def docs_log_call split: sum.splits option.splits)

text \<open>
  Every handler keeps the identifiers of the collection unique: a new document gets
  an identifier that is not in use, a replacement keeps the identifier, and the other
  operations add nothing.
\<close>

lemma unique_ids_kept:
  assumes "distinct (map oid (docs s))"
  shows "distinct (map oid (docs (snd (list_handler rx dev q s))))"
    and "distinct (map oid (docs (snd (get_handler dev ident s))))"
    and "distinct (map oid (docs (snd (post_handler dev b s))))"
    and "distinct (map oid (docs (snd (put_handler dev ident b s))))"
    and "distinct (map oid (docs (snd (delete_handler dev ident s))))"
proof -
  have l: "docs (snd (list_handler rx dev q s)) = docs s"
  proof (cases "validate_list_query q")
    case (Inl a)
    then show ?thesis by (cases a) (simp_all add: list_handler_def)
  next
    case (Inr v)
    obtain p n f where v: "v = (p, n, f)" by (cases v)
    from getAllRestaurants_store[of rx p n f s] Inr v show ?thesis
      by (auto simp: list_handler_def docs_log_call split: prod.splits sum.splits)
  qed
  with assms show "distinct (map oid (docs (snd (list_handler rx dev q s))))" by simp
  have "docs (snd (get_handler dev ident s)) = docs s"
    using getRestaurantById_docs[of ident s]
    by (auto simp: get_handler_def split: prod.splits sum.splits)
  with assms show "distinct (map oid (docs (snd (get_handler dev ident s))))" by simp
  have "docs (snd (post_handler dev b s)) = docs (snd (addNewRestaurant b s)) \<or>
        docs (snd (post_handler dev b s)) = docs s"
    by (auto simp: post_handler_def split: prod.splits sum.splits)
  with assms save_unique[of "log_call AddNewRestaurant s"]
  show "distinct (map oid (docs (snd (post_handler dev b s))))"
    by (auto simp: addNewRestaurant_docs docs_log_call split: option.splits)
  have "docs (snd (put_handler dev ident b s)) = docs (snd (updateRestaurantById b ident s)) \<or>
        docs (snd (put_handler dev ident b s)) = docs s"
    by (auto simp: put_handler_def split: prod.splits sum.splits)
  with assms update_unique[of "log_call (UpdateRestaurantById ident) s" ident]
  show "distinct (map oid (docs (snd (put_handler dev ident b s))))"
    by (auto simp: updateRestaurantById_docs docs_log_call split: option.splits)
  have "docs (snd (delete_handler dev ident s)) = docs (snd (deleteRestaurantById ident s)) \<or>
        docs (snd (delete_handler dev ident s)) = docs s"
    by (auto simp: delete_handler_def split: prod.splits sum.splits)
  with assms delete_unique[of "log_call (DeleteRestaurantById ident) s" ident]
  show "distinct (map oid (docs (snd (delete_handler dev ident s))))"
    by (auto simp: deleteRestaurantById_docs docs_log_call)
qed

section \<open>The matcher of regular expressions\<close>

lemma nullable_lang: "nullable r \<longleftrightarrow> [] \<in> lang r"
  by (induction r) (auto intro: star.intros)

lemma lang_rseq: "lang (rseq r s) = lang (RSeq r s)"
  by (cases r) auto

lemma star_Cons:
  "c # w \<in> star A \<longleftrightarrow> (\<exists>u v. c # u \<in> A \<and> v \<in> star A \<and> w = u @ v)"
proof
  assume "c # w \<in> star A"
  have gen: "x \<in> star A \<Longrightarrow> x = c # w \<Longrightarrow> \<exists>u v. c # u \<in> A \<and> v \<in> star A \<and> w = u @ v" for x
  proof (induction x rule: star.induct)
    case star_Nil
    then show ?case by simp
  next
    case (star_app u v)
    show ?case
    proof (cases u)
      case Nil
      with star_app show ?thesis by simp
    next
      case (Cons a u')
      with star_app.prems have "a = c" "w = u' @ v" by simp_all
      with Cons star_app.hyps show ?thesis by blast
    qed
  qed
  from gen[OF \<open>c # w \<in> star A\<close>] show "\<exists>u v. c # u \<in> A \<and> v \<in> star A \<and> w = u @ v" by simp
next
  assume "\<exists>u v. c # u \<in> A \<and> v \<in> star A \<and> w = u @ v"
  then obtain u v where "c # u \<in> A" "v \<in> star A" "w = u @ v" by blast
  then have "(c # u) @ v \<in> star A" by (intro star_app)
  with \<open>w = u @ v\<close> show "c # w \<in> star A" by simp
qed

lemma pderiv_lang: "(\<Union>r' \<in> set (pderiv c r). lang r') = {w. c # w \<in> lang r}"
proof (induction r)
  case RNone
  then show ?case by simp
next
  case REps
  then show ?case by simp
next
  case (RChar k)
  then show ?case by auto
next
  case (RAlt r s)
  then show ?case by auto
next
  case (RSeq r s)
  have "{w. c # w \<in> lang (RSeq r s)} =
        {u @ v | u v. c # u \<in> lang r \<and> v \<in> lang s} \<union>
        (if nullable r then {w. c # w \<in> lang s} else {})"
    by (auto simp: nullable_lang Cons_eq_append_conv)
  also have "{u @ v | u v. c # u \<in> lang r \<and> v \<in> lang s} =
        (\<Union>r' \<in> set (pderiv c r). lang (rseq r' s))"
    using RSeq.IH(1) by (auto simp: lang_rseq) blast+
  finally show ?case using RSeq.IH(2) by auto
next
  case (RStar r)
  have "{w. c # w \<in> lang (RStar r)} = {u @ v | u v. c # u \<in> lang r \<and> v \<in> star (lang r)}"
    by (auto simp: star_Cons)
  also have "\<dots> = (\<Union>r' \<in> set (pderiv c r). lang (rseq r' (RStar r)))"
    using RStar.IH by (auto simp: lang_rseq) blast+
  finally show ?case by auto
qed

lemma rmatches_lang: "rmatches rs w \<longleftrightarrow> (\<exists>r \<in> set rs. w \<in> lang r)"
proof (induction w arbitrary: rs)
  case Nil
  then show ?case by (auto simp: list_ex_iff nullable_lang)
next
  case (Cons c w)
  have "rmatches rs (c # w) \<longleftrightarrow> (\<exists>r \<in> set rs. \<exists>r' \<in> set (pderiv c r). w \<in> lang r')"
    by (simp add: Cons)
  also have "\<dots> \<longleftrightarrow> (\<exists>r \<in> set rs. c # w \<in> lang r)"
    using pderiv_lang[of c] by blast
  finally show ?case .
qed

text \<open>The matcher decides membership in the language of the expression.\<close>

lemma rmatch_lang: "rmatch r w \<longleftrightarrow> w \<in> lang r"
  by (simp add: rmatch_def rmatches_lang)

end
